theory Spec2Isabelle
  imports Complex_Main "HOL-Library.AList"
begin

section \<open>Python values used by api/main.py\<close>

text \<open>
  A Python \<open>str\<close> is a sequence of Unicode code points, so \<open>len\<close> counts code points and
  not bytes. A \<open>bytes\<close> object is a list of octets (numbers below 256).
\<close>

type_synonym pystr = "nat list"
type_synonym pybytes = "nat list"

definition u :: "string \<Rightarrow> pystr" where
  "u s = map of_char s"

text \<open>
  The values \<open>json.loads\<close> produces and \<open>jsonify\<close>/\<open>json.dump\<close> accept. A Python dict keeps
  insertion order, so an object is an association list. Floats stand as the rational
  they denote; the non-finite floats are not represented.
\<close>

datatype json =
    JNull
  | JBool bool
  | JInt int
  | JFloat rat
  | JStr pystr
  | JArr "json list"
  | JObj "(pystr \<times> json) list"

text \<open>Exceptions no handler catches; Flask answers them with its own error page.\<close>

datatype py_error = AttributeError | UnicodeEncodeError

text \<open>Python's truth value of a JSON value, as \<open>x or {}\<close> tests it.\<close>

fun truthy :: "json \<Rightarrow> bool" where
  "truthy JNull = False"
| "truthy (JBool b) = b"
| "truthy (JInt i) = (i \<noteq> 0)"
| "truthy (JFloat r) = (r \<noteq> 0)"
| "truthy (JStr s) = (s \<noteq> [])"
| "truthy (JArr xs) = (xs \<noteq> [])"
| "truthy (JObj kvs) = (kvs \<noteq> [])"

text \<open>\<open>data.get(key, default)\<close>: only a dict has the method.\<close>

fun dict_get :: "json \<Rightarrow> pystr \<Rightarrow> json \<Rightarrow> py_error + json" where
  "dict_get (JObj kvs) k d = Inr (case map_of kvs k of None \<Rightarrow> d | Some v \<Rightarrow> v)"
| "dict_get _ k d = Inl AttributeError"

text \<open>Reading a member of a response body.\<close>

fun json_member :: "json \<Rightarrow> pystr \<Rightarrow> json option" where
  "json_member (JObj kvs) k = map_of kvs k"
| "json_member _ k = None"

subsection \<open>Whitespace, \<open>str.split()\<close>, \<open>str.strip()\<close>\<close>

text \<open>The code points for which \<open>str.isspace\<close> holds; \<open>split()\<close> and \<open>strip()\<close> use them.\<close>

definition is_space :: "nat \<Rightarrow> bool" where
  "is_space c =
     (c \<in> {0x09, 0x0A, 0x0B, 0x0C, 0x0D, 0x1C, 0x1D, 0x1E, 0x1F, 0x20, 0x85, 0xA0, 0x1680,
            0x2000, 0x2001, 0x2002, 0x2003, 0x2004, 0x2005, 0x2006, 0x2007, 0x2008, 0x2009,
            0x200A, 0x2028, 0x2029, 0x202F, 0x205F, 0x3000})"

text \<open>
  \<open>content.split()\<close>: runs of whitespace separate the tokens and no empty token is produced.
  \<open>cur\<close> holds the characters of the token being read, last one first.
\<close>

fun split_from :: "pystr \<Rightarrow> pystr \<Rightarrow> pystr list" where
  "split_from cur [] = (if cur = [] then [] else [rev cur])"
| "split_from cur (c # cs) =
     (if is_space c then (if cur = [] then split_from [] cs else rev cur # split_from [] cs)
      else split_from (c # cur) cs)"

definition py_split :: "pystr \<Rightarrow> pystr list" where
  "py_split s = split_from [] s"

definition py_strip :: "pystr \<Rightarrow> pystr" where
  "py_strip s = rev (dropWhile is_space (rev (dropWhile is_space s)))"

subsection \<open>\<open>str.replace\<close>, \<open>str.endswith\<close>, \<open>str(int)\<close>, \<open>os.path.join\<close>\<close>

definition startswith :: "pystr \<Rightarrow> pystr \<Rightarrow> bool" where
  "startswith s p = (take (length p) s = p)"

definition endswith :: "pystr \<Rightarrow> pystr \<Rightarrow> bool" where
  "endswith s p = (length p \<le> length s \<and> drop (length s - length p) s = p)"

text \<open>
  \<open>s.replace(old, new)\<close> for a non-empty \<open>old\<close>: every occurrence, found left to right
  without overlap, is replaced. \<open>skip\<close> counts the characters of a match still to drop.
\<close>

fun replace_from :: "nat \<Rightarrow> pystr \<Rightarrow> pystr \<Rightarrow> pystr \<Rightarrow> pystr" where
  "replace_from skip old new [] = []"
| "replace_from (Suc k) old new (c # cs) = replace_from k old new cs"
| "replace_from 0 old new (c # cs) =
     (if startswith (c # cs) old then new @ replace_from (length old - 1) old new cs
      else c # replace_from 0 old new cs)"

definition py_replace :: "pystr \<Rightarrow> pystr \<Rightarrow> pystr \<Rightarrow> pystr" where
  "py_replace s old new =
     (if old = [] then new @ concat (map (\<lambda>c. c # new) s) else replace_from 0 old new s)"

fun str_nat :: "nat \<Rightarrow> pystr" where
  "str_nat n = (if n < 10 then [48 + n] else str_nat (n div 10) @ [48 + n mod 10])"

declare str_nat.simps [simp del]

definition str_int :: "int \<Rightarrow> pystr" where
  "str_int i = (if i < 0 then 45 # str_nat (nat (- i)) else str_nat (nat i))"

definition os_path_join :: "pystr \<Rightarrow> pystr \<Rightarrow> pystr" where
  "os_path_join a b =
     (if startswith b [47] then b
      else if a = [] \<or> endswith a [47] then a @ b
      else a @ [47] @ b)"

subsection \<open>UTF-8\<close>

text \<open>
  \<open>s.encode("utf-8")\<close>: one to four octets per code point; a surrogate code point has no
  encoding and raises \<open>UnicodeEncodeError\<close>.
\<close>

definition encodable :: "nat \<Rightarrow> bool" where
  "encodable c = (c < 0xD800 \<or> (0xE000 \<le> c \<and> c < 0x110000))"

definition utf8_char :: "nat \<Rightarrow> pybytes" where
  "utf8_char c =
     (if c < 0x80 then [c]
      else if c < 0x800 then [0xC0 + c div 64, 0x80 + c mod 64]
      else if c < 0x10000 then [0xE0 + c div 4096, 0x80 + (c div 64) mod 64, 0x80 + c mod 64]
      else [0xF0 + c div 262144, 0x80 + (c div 4096) mod 64, 0x80 + (c div 64) mod 64,
            0x80 + c mod 64])"

fun utf8_encode :: "pystr \<Rightarrow> py_error + pybytes" where
  "utf8_encode [] = Inr []"
| "utf8_encode (c # cs) =
     (if encodable c
      then (case utf8_encode cs of Inl e \<Rightarrow> Inl e | Inr bs \<Rightarrow> Inr (utf8_char c @ bs))
      else Inl UnicodeEncodeError)"

text \<open>
  \<open>b.decode("utf-8", errors="ignore")\<close> as CPython decodes. \<open>utf8_sequence b0 r0\<close> reads the
  sequence that starts with the octet \<open>b0\<close> and goes on in \<open>r0\<close>: it gives the code point
  decoded, if any, and how many octets of \<open>r0\<close> are consumed. An octet that cannot start a
  sequence is dropped alone; a lead octet whose continuation is wrong is dropped together with
  the continuation octets already accepted, and decoding resumes at the offending octet; a
  sequence cut off by the end of the input is dropped. Overlong forms, surrogates and values
  above U+10FFFF are malformed.
\<close>

definition is_cont :: "nat \<Rightarrow> bool" where
  "is_cont b = (0x80 \<le> b \<and> b < 0xC0)"

definition code_point2 :: "nat \<Rightarrow> nat \<Rightarrow> nat" where
  "code_point2 b0 b1 = (b0 - 0xC0) * 64 + (b1 - 0x80)"

definition code_point3 :: "nat \<Rightarrow> nat \<Rightarrow> nat \<Rightarrow> nat" where
  "code_point3 b0 b1 b2 = (b0 - 0xE0) * 4096 + (b1 - 0x80) * 64 + (b2 - 0x80)"

definition code_point4 :: "nat \<Rightarrow> nat \<Rightarrow> nat \<Rightarrow> nat \<Rightarrow> nat" where
  "code_point4 b0 b1 b2 b3 =
     (b0 - 0xF0) * 262144 + (b1 - 0x80) * 4096 + (b2 - 0x80) * 64 + (b3 - 0x80)"

definition utf8_sequence :: "nat \<Rightarrow> pybytes \<Rightarrow> pystr \<times> nat" where
  "utf8_sequence b0 r0 =
     (if b0 < 0x80 then ([b0], 0)
      else if b0 < 0xC2 then ([], 0)
      else if b0 < 0xE0 then
        (case r0 of
           [] \<Rightarrow> ([], 0)
         | b1 # r1 \<Rightarrow> if is_cont b1 then ([code_point2 b0 b1], 1) else ([], 0))
      else if b0 < 0xF0 then
        (case r0 of
           [] \<Rightarrow> ([], 0)
         | b1 # r1 \<Rightarrow>
             if is_cont b1 \<and> (if b1 < 0xA0 then b0 \<noteq> 0xE0 else b0 \<noteq> 0xED) then
               (case r1 of
                  [] \<Rightarrow> ([], 1)
                | b2 # r2 \<Rightarrow> if is_cont b2 then ([code_point3 b0 b1 b2], 2) else ([], 1))
             else ([], 0))
      else if b0 < 0xF5 then
        (case r0 of
           [] \<Rightarrow> ([], 0)
         | b1 # r1 \<Rightarrow>
             if is_cont b1 \<and> (if b1 < 0x90 then b0 \<noteq> 0xF0 else b0 \<noteq> 0xF4) then
               (case r1 of
                  [] \<Rightarrow> ([], 1)
                | b2 # r2 \<Rightarrow>
                    if is_cont b2 then
                      (case r2 of
                         [] \<Rightarrow> ([], 2)
                       | b3 # r3 \<Rightarrow>
                           if is_cont b3 then ([code_point4 b0 b1 b2 b3], 3) else ([], 2))
                    else ([], 1))
             else ([], 0))
      else ([], 0))"

function utf8_decode_ignore :: "pybytes \<Rightarrow> pystr" where
  "utf8_decode_ignore [] = []"
| "utf8_decode_ignore (b0 # r0) =
     (case utf8_sequence b0 r0 of (chars, used) \<Rightarrow> chars @ utf8_decode_ignore (drop used r0))"
  by pat_completeness auto
termination
  by (relation "measure length") auto

section \<open>Configuration, requests and the storage directory\<close>

text \<open>The module-level settings, read from the environment when the module is loaded.\<close>

record config =
  ENVIRONMENT :: pystr
  LOG_LEVEL :: pystr
  MODEL_NAME :: pystr
  EMBEDDINGS_API_KEY :: "pystr option"
  MAX_DOCUMENT_SIZE_MB :: int
  PROCESSING_TIMEOUT_SECONDS :: int
  STORAGE_PATH :: pystr

text \<open>
  A Flask request. \<open>is_json\<close> is \<open>request.is_json\<close>, \<open>get_json\<close> is the value of
  \<open>request.get_json(silent=True)\<close> (\<open>None\<close> when the body does not parse) and \<open>files\<close> is
  the multi-dict \<open>request.files\<close> in order. An uploaded file is a \<open>FileStorage\<close>, whose
  truth value is that of its file name: \<open>not file\<close> holds for an upload with an empty file
  name. \<open>raw_body\<close> is the body as it was sent, and \<open>is_form_data\<close> says that its content type
  is \<open>application/x-www-form-urlencoded\<close> or \<open>multipart/form-data\<close>, the bodies Flask parses
  as a form.
\<close>

record file_storage =
  filename :: pystr
  stream :: pybytes

record request =
  is_json :: bool
  get_json :: "json option"
  files :: "(pystr \<times> file_storage) list"
  is_form_data :: bool
  raw_body :: pybytes

text \<open>
  \<open>request.data\<close>: the raw body, but empty when the body is form data, since parsing the form
  (which reading \<open>request.files\<close> at line 93 does) consumes the body.
\<close>

definition data :: "request \<Rightarrow> pybytes" where
  "data r = (if is_form_data r then [] else raw_body r)"

text \<open>
  A file of the storage directory: what \<open>json.load\<close> makes of it (the parsed value, or the
  message of the exception that opening, reading or parsing raises) and what \<open>os.stat\<close>
  returns for it (the message of the exception, or \<open>st_size\<close> with the UTC
  \<open>isoformat()\<close> text of \<open>st_ctime\<close>).
\<close>

datatype file_body = Json_text json | Load_error pystr

record dirent =
  json_load :: file_body
  stat :: "pystr + (nat \<times> pystr)"

text \<open>
  How the \<open>with open(...)\<close> block of lines 162 and 163 fails. Either \<open>open\<close> raises, and
  nothing is created or truncated; or the file is opened, which creates it or empties it,
  and \<open>json.dump\<close> or the closing of the file raises, which leaves a cut-off text behind: a
  file that \<open>os.stat\<close> finds (with the size and time given) and that \<open>json.load\<close> rejects
  (with the message given). Each fault carries the message of the exception raised.
\<close>

datatype write_fault =
    Open_raises pystr
  | Dump_raises pystr pystr "nat \<times> pystr"

fun fault_message :: "write_fault \<Rightarrow> pystr" where
  "fault_message (Open_raises exc) = exc"
| "fault_message (Dump_raises exc load_exc st) = exc"

text \<open>
  The storage directory \<open>STORAGE_PATH\<close>: its entries by file name in the order
  \<open>os.listdir\<close> gives them, and the failures the operating system answers with:
  \<open>os.makedirs\<close> raising, \<open>os.listdir\<close> raising (each with the exception's message), and
  writing a file of a given name failing. The path \<open>os.path.join(STORAGE_PATH, name)\<close> denotes
  the entry \<open>name\<close>; document ids contain no slash (a UUID, or a URL path segment). A listed
  name need not be reachable: for a dangling symbolic link \<open>os.stat\<close> raises.
\<close>

record filesystem =
  makedirs_error :: "pystr option"
  listdir_error :: "pystr option"
  write_error :: "pystr \<Rightarrow> write_fault option"
  entries :: "(pystr \<times> dirent) list"

text \<open>
  What one call of \<open>process_document\<close> draws from outside: \<open>str(uuid.uuid4())\<close>,
  \<open>datetime.now(timezone.utc).isoformat()\<close>, and the metadata (\<open>st_size\<close> and the
  \<open>isoformat()\<close> text of \<open>st_ctime\<close>) of the file the call writes.
\<close>

record process_env =
  uuid4 :: pystr
  now_isoformat :: pystr
  written_stat :: "nat \<times> pystr"

type_synonym response = "nat \<times> json"

definition jsonify :: "json \<Rightarrow> response" where
  "jsonify v = (200, v)"

section \<open>The handlers\<close>

definition ensure_storage_directory :: "filesystem \<Rightarrow> bool" where
  "ensure_storage_directory fs = (case makedirs_error fs of None \<Rightarrow> True | Some exc \<Rightarrow> False)"

definition embeddings_key_configured :: "config \<Rightarrow> bool" where
  "embeddings_key_configured cfg =
     (case EMBEDDINGS_API_KEY cfg of
        None \<Rightarrow> False
      | Some k \<Rightarrow> if k = [] then False else py_strip k \<noteq> [])"

definition root_handler :: "config \<Rightarrow> response" where
  "root_handler cfg = jsonify (JObj
     [(u ''service'', JStr (u ''AI Document Processing API'')),
      (u ''status'', JStr (u ''running'')),
      (u ''version'', JStr (u ''1.0.0'')),
      (u ''environment'', JStr (ENVIRONMENT cfg)),
      (u ''model'', JObj [(u ''name'', JStr (MODEL_NAME cfg))]),
      (u ''secrets'',
         JObj [(u ''embeddings_api_key_configured'', JBool (embeddings_key_configured cfg))]),
      (u ''config'', JObj
         [(u ''max_document_size_mb'', JInt (MAX_DOCUMENT_SIZE_MB cfg)),
          (u ''processing_timeout_seconds'', JInt (PROCESSING_TIMEOUT_SECONDS cfg)),
          (u ''log_level'', JStr (LOG_LEVEL cfg)),
          (u ''storage_path'', JStr (STORAGE_PATH cfg))])])"

definition health :: response where
  "health = jsonify (JObj [(u ''status'', JStr (u ''healthy''))])"

text \<open>
  Lines 89 to 101 of \<open>process_document\<close>: where the content and the file name come from. The
  outcome is an exception nobody catches, the early 400 answer, or the two values.
\<close>

datatype resolved = Unhandled py_error | Early response | Input json json

definition json_or_empty :: "json option \<Rightarrow> json" where
  "json_or_empty j = (case j of None \<Rightarrow> JObj [] | Some v \<Rightarrow> if truthy v then v else JObj [])"

definition resolve_input :: "request \<Rightarrow> resolved" where
  "resolve_input r =
     (if is_json r then
        (let data' = json_or_empty (get_json r) in
         case dict_get data' (u ''content'') (JStr []) of
           Inl e \<Rightarrow> Unhandled e
         | Inr content \<Rightarrow>
             (case dict_get data' (u ''filename'') (JStr (u ''document.txt'')) of
                Inl e \<Rightarrow> Unhandled e
              | Inr fname \<Rightarrow> Input content fname))
      else if files r \<noteq> [] then
        (case map_of (files r) (u ''file'') of
           None \<Rightarrow> Early (400, JObj [(u ''error'', JStr (u ''No file provided''))])
         | Some file \<Rightarrow>
             if filename file = [] then
               Early (400, JObj [(u ''error'', JStr (u ''No file provided''))])
             else
               Input (JStr (utf8_decode_ignore (stream file)))
                     (JStr (if filename file = [] then u ''document.txt'' else filename file)))
      else
        (let decoded = utf8_decode_ignore (data r) in
         Input (JStr (if decoded = [] then u ''Sample document'' else decoded))
               (JStr (u ''document.txt''))))"

text \<open>\<open>content.encode("utf-8")\<close>: only a \<open>str\<close> has the method.\<close>

fun encode_content :: "json \<Rightarrow> py_error + pybytes" where
  "encode_content (JStr s) = utf8_encode s"
| "encode_content _ = Inl AttributeError"

fun len_content :: "json \<Rightarrow> nat" where
  "len_content (JStr s) = length s"
| "len_content _ = 0"

fun split_content :: "json \<Rightarrow> pystr list" where
  "split_content (JStr s) = py_split s"
| "split_content _ = []"

text \<open>
  \<open>len(content.encode("utf-8")) / (1024 * 1024)\<close>: a quotient by a power of two, which binary
  floating point represents without rounding for every size below \<open>2 ^ 53\<close> octets; Python
  compares the float with the integer limit exactly. The quotient is therefore taken in the
  rationals.
\<close>

definition content_size_mb :: "nat \<Rightarrow> rat" where
  "content_size_mb n = of_nat n / (1024 * 1024)"

definition mock_entities :: json where
  "mock_entities = JArr
     [JObj [(u ''text'', JStr (u ''Azure'')), (u ''type'', JStr (u ''Technology'')),
            (u ''confidence'', JFloat (95 / 100))],
      JObj [(u ''text'', JStr (u ''Container Apps'')), (u ''type'', JStr (u ''Service'')),
            (u ''confidence'', JFloat (93 / 100))],
      JObj [(u ''text'', JStr (u ''document'')), (u ''type'', JStr (u ''Concept'')),
            (u ''confidence'', JFloat (87 / 100))]]"

definition mock_key_phrases :: json where
  "mock_key_phrases = JArr
     [JStr (u ''document processing''), JStr (u ''container deployment''),
      JStr (u ''secrets and configuration''), JStr (u ''revision management'')]"

definition mock_sentiment :: json where
  "mock_sentiment = JObj
     [(u ''overall'', JStr (u ''neutral'')),
      (u ''confidence'', JFloat (78 / 100)),
      (u ''scores'', JObj [(u ''positive'', JFloat (22 / 100)), (u ''neutral'', JFloat (68 / 100)),
                           (u ''negative'', JFloat (10 / 100))])]"

text \<open>Lines 135 to 156: the \<open>result\<close> dict before the storage outcome is added.\<close>

definition build_result ::
  "config \<Rightarrow> pystr \<Rightarrow> pystr \<Rightarrow> json \<Rightarrow> json \<Rightarrow> nat \<Rightarrow> (pystr \<times> json) list" where
  "build_result cfg doc_id timestamp content fname size_bytes =
     [(u ''document_id'', JStr doc_id),
      (u ''filename'', fname),
      (u ''processed_at'', JStr timestamp),
      (u ''environment'', JStr (ENVIRONMENT cfg)),
      (u ''model'', JObj [(u ''name'', JStr (MODEL_NAME cfg))]),
      (u ''secrets'',
         JObj [(u ''embeddings_api_key_configured'', JBool (embeddings_key_configured cfg))]),
      (u ''statistics'', JObj
         [(u ''character_count'', JInt (int (len_content content))),
          (u ''word_count'', JInt (int (length (split_content content)))),
          (u ''size_bytes'', JInt (int size_bytes))]),
      (u ''analysis'', JObj
         [(u ''entities'', mock_entities),
          (u ''key_phrases'', mock_key_phrases),
          (u ''sentiment'', mock_sentiment)]),
      (u ''processing_config'', JObj
         [(u ''timeout_seconds'', JInt (PROCESSING_TIMEOUT_SECONDS cfg)),
          (u ''max_size_mb'', JInt (MAX_DOCUMENT_SIZE_MB cfg))])]"

text \<open>\<open>result["storage"] = v\<close> on a dict that may hold the key already.\<close>

definition dict_set :: "(pystr \<times> json) list \<Rightarrow> pystr \<Rightarrow> json \<Rightarrow> (pystr \<times> json) list" where
  "dict_set kvs k v =
     (if k \<in> fst ` set kvs then map (\<lambda>(k', v'). if k' = k then (k', v) else (k', v')) kvs
      else kvs @ [(k, v)])"

text \<open>
  Lines 158 to 172: the file is written from \<open>result\<close> as it stands, and the storage outcome
  is added to \<open>result\<close> afterwards. When \<open>open\<close> raises the directory stays as it was; when
  the file was opened and the write raises, the cut-off file stays behind.
\<close>

definition save_result ::
  "config \<Rightarrow> process_env \<Rightarrow> (pystr \<times> json) list \<Rightarrow> filesystem
     \<Rightarrow> (pystr \<times> json) list \<times> filesystem" where
  "save_result cfg env result fs =
     (if ensure_storage_directory fs then
        (let name = uuid4 env @ u ''.json'';
             result_path = os_path_join (STORAGE_PATH cfg) name
         in case write_error fs name of
              None \<Rightarrow>
                (dict_set result (u ''storage'')
                   (JObj [(u ''saved'', JBool True), (u ''path'', JStr result_path)]),
                 fs\<lparr>entries := AList.update name
                       \<lparr>json_load = Json_text (JObj result), stat = Inr (written_stat env)\<rparr>
                       (entries fs)\<rparr>)
            | Some fault \<Rightarrow>
                (dict_set result (u ''storage'')
                   (JObj [(u ''saved'', JBool False), (u ''error'', JStr (fault_message fault))]),
                 case fault of
                   Open_raises exc \<Rightarrow> fs
                 | Dump_raises exc load_exc st \<Rightarrow>
                     fs\<lparr>entries := AList.update name
                          \<lparr>json_load = Load_error load_exc, stat = Inr st\<rparr> (entries fs)\<rparr>))
      else
        (dict_set result (u ''storage'')
           (JObj [(u ''saved'', JBool False), (u ''reason'', JStr (u ''Storage not available''))]),
         fs))"

text \<open>Line 87: the timestamp, with the UTC offset written as \<open>Z\<close>.\<close>

definition processed_at :: "process_env \<Rightarrow> pystr" where
  "processed_at env = py_replace (now_isoformat env) (u ''+00:00'') (u ''Z'')"

definition process_document ::
  "config \<Rightarrow> process_env \<Rightarrow> request \<Rightarrow> filesystem \<Rightarrow> (py_error + response) \<times> filesystem" where
  "process_document cfg env r fs =
     (let doc_id = uuid4 env;
          timestamp = processed_at env
      in case resolve_input r of
           Unhandled e \<Rightarrow> (Inl e, fs)
         | Early resp \<Rightarrow> (Inr resp, fs)
         | Input content fname \<Rightarrow>
             (case encode_content content of
                Inl e \<Rightarrow> (Inl e, fs)
              | Inr encoded \<Rightarrow>
                  if content_size_mb (length encoded) > of_int (MAX_DOCUMENT_SIZE_MB cfg) then
                    (Inr (413, JObj [(u ''error'',
                        JStr (u ''Document exceeds maximum size of ''
                              @ str_int (MAX_DOCUMENT_SIZE_MB cfg) @ u '' MB''))]), fs)
                  else
                    (let result = build_result cfg doc_id timestamp content fname (length encoded);
                         (result', fs') = save_result cfg env result fs
                     in (Inr (jsonify (JObj result')), fs'))))"

text \<open>
  The loop of \<open>list_documents\<close>: the first \<open>os.stat\<close> that raises ends it with the message.
\<close>

fun list_entries :: "(pystr \<times> dirent) list \<Rightarrow> pystr + json list" where
  "list_entries [] = Inr []"
| "list_entries ((name, e) # rest) =
     (if endswith name (u ''.json'') then
        (case stat e of
           Inl exc \<Rightarrow> Inl exc
         | Inr (st_size, ctime_iso) \<Rightarrow>
             (case list_entries rest of
                Inl exc \<Rightarrow> Inl exc
              | Inr found \<Rightarrow>
                  Inr (JObj [(u ''document_id'', JStr (py_replace name (u ''.json'') [])),
                             (u ''size_bytes'', JInt (int st_size)),
                             (u ''created_at'',
                                JStr (py_replace ctime_iso (u ''+00:00'') (u ''Z'')))] # found)))
      else list_entries rest)"

definition list_documents :: "config \<Rightarrow> filesystem \<Rightarrow> response" where
  "list_documents cfg fs =
     (if \<not> ensure_storage_directory fs then
        jsonify (JObj [(u ''documents'', JArr []), (u ''error'', JStr (u ''Storage not available''))])
      else
        (case listdir_error fs of
           Some exc \<Rightarrow> jsonify (JObj [(u ''documents'', JArr []), (u ''error'', JStr exc)])
         | None \<Rightarrow>
             (case list_entries (entries fs) of
                Inl exc \<Rightarrow> jsonify (JObj [(u ''documents'', JArr []), (u ''error'', JStr exc)])
              | Inr found \<Rightarrow>
                  jsonify (JObj [(u ''documents'', JArr found),
                                 (u ''count'', JInt (int (length found)))]))))"

text \<open>
  \<open>os.path.exists\<close> for a file of the storage directory: it calls \<open>os.stat\<close> and answers
  \<open>False\<close> when that raises, so it holds for the names that are there and can be reached.
\<close>

definition os_path_exists :: "filesystem \<Rightarrow> pystr \<Rightarrow> bool" where
  "os_path_exists fs name =
     (case map_of (entries fs) name of
        None \<Rightarrow> False
      | Some e \<Rightarrow> (case stat e of Inl exc \<Rightarrow> False | Inr st \<Rightarrow> True))"

text \<open>
  Lines 212 and 213, \<open>json.load\<close> on the opened file: the parsed value, or the message of the
  exception. Opening a name that is not there raises \<open>FileNotFoundError\<close>.
\<close>

definition open_and_load :: "config \<Rightarrow> filesystem \<Rightarrow> pystr \<Rightarrow> pystr + json" where
  "open_and_load cfg fs name =
     (case map_of (entries fs) name of
        None \<Rightarrow>
          Inl (u ''[Errno 2] No such file or directory: ''
               @ [39] @ os_path_join (STORAGE_PATH cfg) name @ [39])
      | Some e \<Rightarrow> (case json_load e of Json_text v \<Rightarrow> Inr v | Load_error exc \<Rightarrow> Inl exc))"

definition get_document :: "config \<Rightarrow> pystr \<Rightarrow> filesystem \<Rightarrow> response" where
  "get_document cfg doc_id fs =
     (let name = doc_id @ u ''.json'' in
      if \<not> os_path_exists fs name then
        (404, JObj [(u ''error'', JStr (u ''Document not found''))])
      else
        (case open_and_load cfg fs name of
           Inr v \<Rightarrow> jsonify v
         | Inl exc \<Rightarrow> (500, JObj [(u ''error'', JStr exc)])))"

section \<open>Notions of the specification\<close>

text \<open>
  The number of whitespace-delimited tokens of a text: the characters that are not whitespace
  and stand first or right after a whitespace character, one for each token.
\<close>

definition token_count :: "pystr \<Rightarrow> nat" where
  "token_count s = length (filter (\<lambda>(p, c). is_space p \<and> \<not> is_space c) (zip (32 # s) s))"

text \<open>The size of the UTF-8 encoding of a text: one to four octets for each code point.\<close>

definition utf8_width :: "nat \<Rightarrow> nat" where
  "utf8_width c = (if c < 0x80 then 1 else if c < 0x800 then 2 else if c < 0x10000 then 3 else 4)"

definition utf8_size :: "pystr \<Rightarrow> nat" where
  "utf8_size s = sum_list (map utf8_width s)"

text \<open>
  A key that is set and not empty once the whitespace at both of its ends is trimmed.
\<close>

definition nonempty_after_trim :: "pystr option \<Rightarrow> bool" where
  "nonempty_after_trim key = (case key of None \<Rightarrow> False | Some k \<Rightarrow> py_strip k \<noteq> [])"

text \<open>
  The status of an answer of \<open>process_document\<close>, or the exception when none is given.
\<close>

definition answer_status :: "py_error + response \<Rightarrow> py_error + nat" where
  "answer_status a = (case a of Inl e \<Rightarrow> Inl e | Inr resp \<Rightarrow> Inr (fst resp))"

text \<open>
  Octets that no UTF-8 sequence starts with, and the lead octets of the sequences of two to four
  octets. A text is cut off when it ends with a lead octet and nothing after it.
\<close>

definition stray_octet :: "nat \<Rightarrow> bool" where
  "stray_octet b = ((0x80 \<le> b \<and> b < 0xC2) \<or> 0xF5 \<le> b)"

definition lead_octet :: "nat \<Rightarrow> bool" where
  "lead_octet b = (0xC2 \<le> b \<and> b < 0xF5)"

definition cut_off :: "pybytes \<Rightarrow> bool" where
  "cut_off tail = (case tail of [] \<Rightarrow> True | b # rest \<Rightarrow> lead_octet b \<and> rest = [])"

section \<open>Example inputs\<close>

text \<open>The configuration the module has when no variable of the environment is set.\<close>

definition default_config :: config where
  "default_config = \<lparr>ENVIRONMENT = u ''development'', LOG_LEVEL = u ''INFO'',
     MODEL_NAME = u ''not-configured'', EMBEDDINGS_API_KEY = None, MAX_DOCUMENT_SIZE_MB = 10,
     PROCESSING_TIMEOUT_SECONDS = 15, STORAGE_PATH = u ''/tmp/processed''\<rparr>"

definition empty_storage :: filesystem where
  "empty_storage = \<lparr>makedirs_error = None, listdir_error = None, write_error = (\<lambda>name. None),
     entries = []\<rparr>"

definition sample_env :: process_env where
  "sample_env = \<lparr>uuid4 = u ''0b0e7a52-5c0f-4d6e-9a57-3f1c2d4e5f60'',
     now_isoformat = u ''2024-05-01T12:00:00.000000+00:00'',
     written_stat = (731, u ''2024-05-01T12:00:00.000000+00:00'')\<rparr>"

text \<open>The request of the specification's scenario: a JSON body with content and file name.\<close>

definition hello_request :: request where
  "hello_request = \<lparr>is_json = True,
     get_json = Some (JObj [(u ''content'', JStr (u ''hello world'')),
                            (u ''filename'', JStr (u ''a.txt''))]),
     files = [], is_form_data = False, raw_body = []\<rparr>"

text \<open>A content with a character outside ASCII and a no-break space between two words.\<close>

definition cafe_request :: request where
  "cafe_request = \<lparr>is_json = True,
     get_json = Some (JObj [(u ''content'',
       JStr [0x63, 0x61, 0x66, 0xE9, 0x20, 0x61, 0x75, 0xA0, 0x6C, 0x61, 0x69, 0x74])]),
     files = [], is_form_data = False, raw_body = []\<rparr>"

definition hello_record :: "(pystr \<times> json) list" where
  "hello_record = build_result default_config (uuid4 sample_env) (processed_at sample_env)
     (JStr (u ''hello world'')) (JStr (u ''a.txt'')) 11"

text \<open>
  Storage directories that fail: not creatable, not writable, out of space, not listable.
\<close>

definition unavailable_storage :: filesystem where
  "unavailable_storage = empty_storage\<lparr>makedirs_error := Some (u ''[Errno 13] Permission denied'')\<rparr>"

definition readonly_storage :: filesystem where
  "readonly_storage = empty_storage\<lparr>write_error :=
     (\<lambda>name. Some (Open_raises (u ''[Errno 13] Permission denied'')))\<rparr>"

definition full_storage :: filesystem where
  "full_storage = empty_storage\<lparr>write_error :=
     (\<lambda>name. Some (Dump_raises (u ''[Errno 28] No space left on device'')
                    (u ''Expecting value: line 1 column 1 (char 0)'')
                    (0, u ''2024-05-01T12:00:00.000000+00:00'')))\<rparr>"

definition unlistable_storage :: filesystem where
  "unlistable_storage = empty_storage\<lparr>listdir_error := Some (u ''[Errno 13] Permission denied'')\<rparr>"


definition stray_storage :: filesystem where
  "stray_storage = empty_storage\<lparr>entries :=
     [(u ''report.json.json'', \<lparr>json_load = Json_text (JObj []),
                                 stat = Inr (2, u ''2024-05-01T12:00:00+00:00'')\<rparr>)]\<rparr>"


text \<open>A form-encoded request without files, and a plain-text request with the same body.\<close>

definition form_request :: request where
  "form_request = \<lparr>is_json = False, get_json = None, files = [], is_form_data = True,
     raw_body = u ''note=hello''\<rparr>"

definition text_request :: request where
  "text_request = \<lparr>is_json = False, get_json = None, files = [], is_form_data = False,
     raw_body = u ''note=hello''\<rparr>"

text \<open>
  Plain-text requests with malformed octets: a text, a stray octet, a second text and a lead
  octet cut off by the end; and stray octets only.
\<close>

definition cut_request :: request where
  "cut_request = \<lparr>is_json = False, get_json = None, files = [], is_form_data = False,
     raw_body = [0x63, 0x61, 0x66, 0xC3, 0xA9, 0xFF, 0x21, 0xC3]\<rparr>"

definition junk_request :: request where
  "junk_request = \<lparr>is_json = False, get_json = None, files = [], is_form_data = False,
     raw_body = [0xFF, 0x80]\<rparr>"

section \<open>String literals\<close>

lemma u_eq_iff: "u a = u b \<longleftrightarrow> a = b"
  by (simp add: u_def inj_on_def)

lemma u_Nil: "u [] = []"
  by (simp add: u_def)

lemma u_Cons: "u (c # cs) = of_char c # u cs"
  by (simp add: u_def)

lemma u_eq_Nil_iff: "u a = [] \<longleftrightarrow> a = []"
  by (simp add: u_def)

section \<open>Measuring a text\<close>

text \<open>
  The number of tokens \<open>split()\<close> returns is the number of token starts, and the encoding has
  the size that the widths of the code points add up to.
\<close>

lemma split_from_count:
  "(cur = [] \<longleftrightarrow> is_space p) \<Longrightarrow>
     length (split_from cur s) =
       (if cur = [] then 0 else 1)
       + length (filter (\<lambda>(p, c). is_space p \<and> \<not> is_space c) (zip (p # s) s))"
proof (induction s arbitrary: cur p)
  case Nil
  then show ?case by simp
next
  case (Cons c cs)
  show ?case
  proof (cases "is_space c")
    case True
    have "length (split_from [] cs) =
            length (filter (\<lambda>(p, c). is_space p \<and> \<not> is_space c) (zip (c # cs) cs))"
      using Cons.IH [of "[]" c] True by simp
    with True show ?thesis by simp
  next
    case False
    have "length (split_from (c # cur) cs) =
            1 + length (filter (\<lambda>(p, c). is_space p \<and> \<not> is_space c) (zip (c # cs) cs))"
      using Cons.IH [of "c # cur" c] False by simp
    with False Cons.prems show ?thesis by auto
  qed
qed

lemma is_space_32: "is_space 32"
  by (simp add: is_space_def)

lemma length_py_split: "length (py_split s) = token_count s"
  using split_from_count [of "[]" 32 s] by (simp add: py_split_def token_count_def is_space_32)

lemma token_count_Nil: "token_count [] = 0"
  by (simp add: token_count_def)

lemma length_utf8_char: "length (utf8_char c) = utf8_width c"
  by (simp add: utf8_char_def utf8_width_def)

lemma utf8_encode_length: "utf8_encode s = Inr bs \<Longrightarrow> length bs = utf8_size s"
proof (induction s arbitrary: bs)
  case Nil
  then show ?case by (simp add: utf8_size_def)
next
  case (Cons c cs)
  then show ?case
    by (auto simp: utf8_size_def length_utf8_char split: if_splits sum.splits)
qed

lemma utf8_encode_total: "list_all encodable s \<Longrightarrow> \<exists>bs. utf8_encode s = Inr bs"
  by (induction s) auto

lemma utf8_encode_Inr_iff: "(\<exists>bs. utf8_encode s = Inr bs) \<longleftrightarrow> list_all encodable s"
  by (induction s) (auto split: sum.splits)

lemma utf8_size_Nil: "utf8_size [] = 0"
  by (simp add: utf8_size_def)

text \<open>
  The size check of line 104 compares a quotient; it holds exactly when the number of octets
  exceeds the limit in mebibytes.
\<close>

lemma size_check_iff:
  "content_size_mb n > of_int m \<longleftrightarrow> int n > m * (1024 * 1024)"
proof -
  have "content_size_mb n > of_int m \<longleftrightarrow> (of_int m :: rat) * (1024 * 1024) < of_nat n"
    by (simp add: content_size_mb_def pos_less_divide_eq)
  also have "\<dots> \<longleftrightarrow> (of_int (m * (1024 * 1024)) :: rat) < of_int (int n)"
    by simp
  also have "\<dots> \<longleftrightarrow> m * (1024 * 1024) < int n"
    by (simp only: of_int_less_iff)
  finally show ?thesis .
qed

section \<open>Decoding UTF-8 while ignoring errors\<close>

text \<open>
  Whatever the octets, the decoded text has a UTF-8 encoding: no surrogate and nothing above
  U+10FFFF comes out of the decoder.
\<close>

lemma two_octets_encodable:
  assumes "\<not> b0 < 0xC2" and "b0 < 0xE0" and "is_cont b1"
  shows "encodable (code_point2 b0 b1)"
proof -
  obtain a where a: "b0 = 0xC0 + a"
    using assms(1) le_Suc_ex [of "0xC0" b0] by auto
  obtain x where x: "b1 = 0x80 + x"
    using assms(3) le_Suc_ex [of "0x80" b1] by (auto simp: is_cont_def)
  from assms show ?thesis
    unfolding a x encodable_def is_cont_def code_point2_def by simp
qed

lemma three_octets_encodable:
  assumes "\<not> b0 < 0xE0" and "b0 < 0xF0" and "is_cont b1"
      and "if b1 < 0xA0 then b0 \<noteq> 0xE0 else b0 \<noteq> 0xED" and "is_cont b2"
  shows "encodable (code_point3 b0 b1 b2)"
proof -
  obtain a where a: "b0 = 0xE0 + a"
    using assms(1) le_Suc_ex [of "0xE0" b0] by auto
  obtain x where x: "b1 = 0x80 + x"
    using assms(3) le_Suc_ex [of "0x80" b1] by (auto simp: is_cont_def)
  obtain y where y: "b2 = 0x80 + y"
    using assms(5) le_Suc_ex [of "0x80" b2] by (auto simp: is_cont_def)
  have bounds: "a < 16" "x < 64" "y < 64" "x < 32 \<longrightarrow> a \<noteq> 0" "\<not> x < 32 \<longrightarrow> a \<noteq> 13"
    using assms unfolding a x y is_cont_def by (simp_all split: if_splits)
  consider "a \<le> 12" | "a = 13" "x < 32" | "14 \<le> a"
    using bounds by linarith
  then have "a * 4096 + x * 64 + y < 0xD800
             \<or> (0xE000 \<le> a * 4096 + x * 64 + y \<and> a * 4096 + x * 64 + y < 0x110000)"
    using bounds by cases linarith+
  then show ?thesis
    unfolding a x y encodable_def code_point3_def by simp
qed

lemma four_octets_encodable:
  assumes "\<not> b0 < 0xF0" and "b0 < 0xF5" and "is_cont b1"
      and "if b1 < 0x90 then b0 \<noteq> 0xF0 else b0 \<noteq> 0xF4" and "is_cont b2" and "is_cont b3"
  shows "encodable (code_point4 b0 b1 b2 b3)"
proof -
  obtain a where a: "b0 = 0xF0 + a"
    using assms(1) le_Suc_ex [of "0xF0" b0] by auto
  obtain x where x: "b1 = 0x80 + x"
    using assms(3) le_Suc_ex [of "0x80" b1] by (auto simp: is_cont_def)
  obtain y where y: "b2 = 0x80 + y"
    using assms(5) le_Suc_ex [of "0x80" b2] by (auto simp: is_cont_def)
  obtain z where z: "b3 = 0x80 + z"
    using assms(6) le_Suc_ex [of "0x80" b3] by (auto simp: is_cont_def)
  have bounds: "a < 5" "x < 64" "y < 64" "z < 64" "x < 16 \<longrightarrow> a \<noteq> 0" "\<not> x < 16 \<longrightarrow> a \<noteq> 4"
    using assms unfolding a x y z is_cont_def by (simp_all split: if_splits)
  have "0xE000 \<le> a * 262144 + x * 4096 + y * 64 + z
        \<and> a * 262144 + x * 4096 + y * 64 + z < 0x110000"
    using bounds by linarith
  then show ?thesis
    unfolding a x y z encodable_def code_point4_def by simp
qed

lemma ascii_encodable: "b < 0x80 \<Longrightarrow> encodable b"
  by (simp add: encodable_def)

lemma utf8_sequence_encodable: "list_all encodable (fst (utf8_sequence b0 r0))"
  unfolding utf8_sequence_def
  by (simp add: two_octets_encodable three_octets_encodable four_octets_encodable
                   ascii_encodable split: list.split)

lemma utf8_decode_ignore_encodable: "list_all encodable (utf8_decode_ignore bs)"
proof (induction bs rule: utf8_decode_ignore.induct)
  case 1
  then show ?case by simp
next
  case (2 b0 r0)
  obtain chars used where s: "utf8_sequence b0 r0 = (chars, used)"
    by (cases "utf8_sequence b0 r0")
  have "list_all encodable chars"
    using utf8_sequence_encodable [of b0 r0] by (simp add: s)
  with 2 s show ?case by simp
qed

text \<open>
  On well-formed input nothing is ignored: decoding the encoding of a text gives the text back.
\<close>

lemma split_octets:
  fixes c :: nat
  shows "c = (c div 4096) * 4096 + ((c div 64) mod 64) * 64 + c mod 64"
    and "c = (c div 262144) * 262144 + ((c div 4096) mod 64) * 4096 + ((c div 64) mod 64) * 64
             + c mod 64"
proof -
  have a: "c div 4096 = (c div 64) div 64"
    by (simp add: div_mult2_eq)
  have b: "c div 262144 = (c div 4096) div 64"
    by (simp add: div_mult2_eq)
  have 1: "c = (c div 64) * 64 + c mod 64"
    by simp
  have 2: "c div 64 = ((c div 64) div 64) * 64 + (c div 64) mod 64"
    by simp
  have 3: "c div 4096 = ((c div 4096) div 64) * 64 + (c div 4096) mod 64"
    by simp
  show "c = (c div 4096) * 4096 + ((c div 64) mod 64) * 64 + c mod 64"
    using 1 2 a by linarith
  show "c = (c div 262144) * 262144 + ((c div 4096) mod 64) * 4096 + ((c div 64) mod 64) * 64
             + c mod 64"
    using 1 2 3 a b by linarith
qed

lemma utf8_sequence_two:
  assumes "0x80 \<le> c" and "c < 0x800"
  shows "utf8_sequence (0xC0 + c div 64) ((0x80 + c mod 64) # rest) = ([c], 1)"
proof -
  have d: "2 \<le> c div 64" "c div 64 < 32"
    using assms by arith+
  have cp: "code_point2 (0xC0 + c div 64) (0x80 + c mod 64) = c"
    by (simp add: code_point2_def)
  show ?thesis
    using d by (simp add: utf8_sequence_def is_cont_def cp)
qed

lemma utf8_sequence_three:
  assumes "0x800 \<le> c" and "c < 0x10000" and "c < 0xD800 \<or> 0xE000 \<le> c"
  shows "utf8_sequence (0xE0 + c div 4096)
           ((0x80 + (c div 64) mod 64) # (0x80 + c mod 64) # rest) = ([c], 2)"
proof -
  define e k m where "e = c div 4096" and "k = (c div 64) mod 64" and "m = c mod 64"
  have c: "c = e * 4096 + k * 64 + m"
    unfolding e_def k_def m_def by (rule split_octets(1))
  have r: "k < 64" "m < 64"
    by (simp_all add: k_def m_def)
  have e: "e < 16" "k < 32 \<longrightarrow> e \<noteq> 0" "\<not> k < 32 \<longrightarrow> e \<noteq> 13"
    using assms c r by linarith+
  have cp: "code_point3 (0xE0 + e) (0x80 + k) (0x80 + m) = c"
    by (simp add: code_point3_def c)
  have "utf8_sequence (0xE0 + e) ((0x80 + k) # (0x80 + m) # rest) = ([c], 2)"
    using e r by (simp add: utf8_sequence_def is_cont_def cp)
  then show ?thesis
    by (simp only: e_def k_def m_def)
qed

lemma utf8_sequence_four:
  assumes "0x10000 \<le> c" and "c < 0x110000"
  shows "utf8_sequence (0xF0 + c div 262144)
           ((0x80 + (c div 4096) mod 64) # (0x80 + (c div 64) mod 64) # (0x80 + c mod 64) # rest)
         = ([c], 3)"
proof -
  define e j k m where "e = c div 262144" and "j = (c div 4096) mod 64"
    and "k = (c div 64) mod 64" and "m = c mod 64"
  have c: "c = e * 262144 + j * 4096 + k * 64 + m"
    unfolding e_def j_def k_def m_def by (rule split_octets(2))
  have r: "j < 64" "k < 64" "m < 64"
    by (simp_all add: j_def k_def m_def)
  have e: "e < 5" "j < 16 \<longrightarrow> e \<noteq> 0" "\<not> j < 16 \<longrightarrow> e \<noteq> 4"
    using assms c r by linarith+
  have cp: "code_point4 (0xF0 + e) (0x80 + j) (0x80 + k) (0x80 + m) = c"
    by (simp add: code_point4_def c)
  have "utf8_sequence (0xF0 + e) ((0x80 + j) # (0x80 + k) # (0x80 + m) # rest) = ([c], 3)"
    using e r by (simp add: utf8_sequence_def is_cont_def cp)
  then show ?thesis
    by (simp only: e_def j_def k_def m_def)
qed

lemma utf8_decode_ignore_utf8_char:
  assumes "encodable c"
  shows "utf8_decode_ignore (utf8_char c @ rest) = c # utf8_decode_ignore rest"
proof -
  consider "c < 0x80" | "0x80 \<le> c" "c < 0x800" | "0x800 \<le> c" "c < 0x10000"
    | "0x10000 \<le> c" "c < 0x110000"
    using assms unfolding encodable_def by linarith
  then show ?thesis
  proof cases
    case 1
    then show ?thesis by (simp add: utf8_char_def utf8_sequence_def)
  next
    case 2
    then show ?thesis by (simp add: utf8_char_def utf8_sequence_two)
  next
    case 3
    moreover have "c < 0xD800 \<or> 0xE000 \<le> c"
      using assms unfolding encodable_def by linarith
    ultimately show ?thesis by (simp add: utf8_char_def utf8_sequence_three)
  next
    case 4
    then show ?thesis by (simp add: utf8_char_def utf8_sequence_four)
  qed
qed

lemma utf8_decode_ignore_encode: "utf8_encode s = Inr bs \<Longrightarrow> utf8_decode_ignore bs = s"
proof (induction s arbitrary: bs)
  case Nil
  then show ?case by simp
next
  case (Cons c cs)
  then show ?case
    by (auto simp: utf8_decode_ignore_utf8_char split: if_splits sum.splits)
qed

lemma utf8_decode_ignore_encode_append:
  "utf8_encode s = Inr bs \<Longrightarrow> utf8_decode_ignore (bs @ rest) = s @ utf8_decode_ignore rest"
proof (induction s arbitrary: bs)
  case Nil
  then show ?case by simp
next
  case (Cons c cs)
  then show ?case
    by (auto simp: utf8_decode_ignore_utf8_char split: if_splits sum.splits)
qed

text \<open>
  What is ignored: an octet that starts no sequence, and a lead octet at the very end.
\<close>

lemma utf8_sequence_stray: "stray_octet b \<Longrightarrow> utf8_sequence b r0 = ([], 0)"
  by (auto simp: stray_octet_def utf8_sequence_def)

lemma utf8_decode_ignore_stray:
  "list_all stray_octet junk \<Longrightarrow> utf8_decode_ignore (junk @ rest) = utf8_decode_ignore rest"
  by (induction junk) (simp_all add: utf8_sequence_stray)

lemma utf8_sequence_lead_alone: "lead_octet b \<Longrightarrow> utf8_sequence b [] = ([], 0)"
  by (simp add: lead_octet_def utf8_sequence_def)

lemma utf8_decode_ignore_cut_off: "cut_off tail \<Longrightarrow> utf8_decode_ignore tail = []"
  by (cases tail) (simp_all add: cut_off_def utf8_sequence_lead_alone)

lemma utf8_decode_ignore_parts:
  assumes "utf8_encode s1 = Inr e1" and "list_all stray_octet junk"
      and "utf8_encode s2 = Inr e2" and "cut_off tail"
  shows "utf8_decode_ignore (e1 @ junk @ e2 @ tail) = s1 @ s2"
  by (simp add: utf8_decode_ignore_encode_append [OF assms(1)] utf8_decode_ignore_stray [OF assms(2)]
        utf8_decode_ignore_encode_append [OF assms(3)] utf8_decode_ignore_cut_off [OF assms(4)]
        del: utf8_decode_ignore.simps)

section \<open>The result dict and its storage outcome\<close>

lemma dict_set_build_result:
  "dict_set (build_result cfg doc_id ts content fname n) (u ''storage'') v =
     build_result cfg doc_id ts content fname n @ [(u ''storage'', v)]"
  by (simp add: dict_set_def build_result_def u_eq_iff)

lemma statistics_build_result:
  "map_of (build_result cfg doc_id ts content fname n @ rest) (u ''statistics'') =
     Some (JObj [(u ''character_count'', JInt (int (len_content content))),
                 (u ''word_count'', JInt (int (length (split_content content)))),
                 (u ''size_bytes'', JInt (int n))])"
  by (simp add: build_result_def u_eq_iff)

lemma filename_build_result:
  "map_of (build_result cfg d t c f n @ rest) (u ''filename'') = Some f"
  by (simp add: build_result_def u_eq_iff)

lemma document_id_build_result:
  "map_of (build_result cfg d t c f n @ rest) (u ''document_id'') = Some (JStr d)"
  by (simp add: build_result_def u_eq_iff)

lemma storage_build_result: "map_of (build_result cfg d t c f n) (u ''storage'') = None"
  by (simp add: build_result_def u_eq_iff)

lemma storage_of_answer:
  "map_of (build_result cfg d t c f n @ [(u ''storage'', v)]) (u ''storage'') = Some v"
  by (simp add: map_add_def storage_build_result)

lemma save_result_unavailable:
  assumes "makedirs_error fs = Some exc"
  shows "save_result cfg env (build_result cfg d t c f n) fs =
           (build_result cfg d t c f n
              @ [(u ''storage'', JObj [(u ''saved'', JBool False),
                                       (u ''reason'', JStr (u ''Storage not available''))])], fs)"
  using assms
  by (simp add: save_result_def ensure_storage_directory_def dict_set_build_result)

lemma save_result_write_error:
  assumes "makedirs_error fs = None" and "write_error fs (uuid4 env @ u ''.json'') = Some fault"
  shows "save_result cfg env (build_result cfg d t c f n) fs =
           (build_result cfg d t c f n
              @ [(u ''storage'', JObj [(u ''saved'', JBool False),
                                       (u ''error'', JStr (fault_message fault))])],
            case fault of
              Open_raises exc \<Rightarrow> fs
            | Dump_raises exc load_exc st \<Rightarrow>
                fs\<lparr>entries := AList.update (uuid4 env @ u ''.json'')
                     \<lparr>json_load = Load_error load_exc, stat = Inr st\<rparr> (entries fs)\<rparr>)"
  using assms
  by (simp add: save_result_def ensure_storage_directory_def dict_set_build_result Let_def)

lemma save_result_saved:
  assumes "makedirs_error fs = None" and "write_error fs (uuid4 env @ u ''.json'') = None"
  shows "save_result cfg env (build_result cfg d t c f n) fs =
           (build_result cfg d t c f n
              @ [(u ''storage'', JObj [(u ''saved'', JBool True),
                    (u ''path'', JStr (os_path_join (STORAGE_PATH cfg) (uuid4 env @ u ''.json'')))])],
            fs\<lparr>entries := AList.update (uuid4 env @ u ''.json'')
                  \<lparr>json_load = Json_text (JObj (build_result cfg d t c f n)),
                     stat = Inr (written_stat env)\<rparr>
                  (entries fs)\<rparr>)"
  using assms
  by (simp add: save_result_def ensure_storage_directory_def dict_set_build_result Let_def)

lemma save_result_appends:
  "\<exists>outcome fs'. save_result cfg env (build_result cfg d t c f n) fs =
      (build_result cfg d t c f n @ [(u ''storage'', outcome)], fs')"
proof (cases "makedirs_error fs")
  case (Some exc)
  then show ?thesis by (simp add: save_result_unavailable)
next
  case None
  then show ?thesis
    by (cases "write_error fs (uuid4 env @ u ''.json'')")
       (simp_all add: save_result_saved save_result_write_error)
qed

text \<open>
  A request whose content is a text that has an encoding within the limit reaches line 158, and
  the answer is the result dict with the storage outcome added.
\<close>

lemma process_document_reaches_save:
  assumes "resolve_input r = Input (JStr s) fname"
      and "list_all encodable s"
      and "int (utf8_size s) \<le> MAX_DOCUMENT_SIZE_MB cfg * (1024 * 1024)"
  shows "process_document cfg env r fs =
           (case save_result cfg env
                   (build_result cfg (uuid4 env) (processed_at env) (JStr s) fname (utf8_size s)) fs
            of (result', fs') \<Rightarrow> (Inr (200, JObj result'), fs'))"
proof -
  obtain encoded where enc: "utf8_encode s = Inr encoded"
    using utf8_encode_total [OF assms(2)] by blast
  have len: "length encoded = utf8_size s"
    by (rule utf8_encode_length [OF enc])
  have "\<not> content_size_mb (length encoded) > of_int (MAX_DOCUMENT_SIZE_MB cfg)"
    using assms(3) by (simp add: size_check_iff len)
  then show ?thesis
    by (simp add: process_document_def assms(1) enc len processed_at_def jsonify_def)
qed

lemma process_document_answers_record:
  assumes "resolve_input r = Input (JStr s) fname"
      and "list_all encodable s"
      and "int (utf8_size s) \<le> MAX_DOCUMENT_SIZE_MB cfg * (1024 * 1024)"
  shows "\<exists>outcome fs'.
           process_document cfg env r fs =
             (Inr (200, JObj (build_result cfg (uuid4 env) (processed_at env) (JStr s) fname
                                (utf8_size s) @ [(u ''storage'', outcome)])), fs')"
proof -
  let ?rec = "build_result cfg (uuid4 env) (processed_at env) (JStr s) fname (utf8_size s)"
  obtain outcome fs' where
    sv: "save_result cfg env ?rec fs = (?rec @ [(u ''storage'', outcome)], fs')"
    using save_result_appends by blast
  show ?thesis
    by (simp add: process_document_reaches_save [OF assms] sv)
qed

text \<open>
  Conversely an answer with status 200 comes from line 172 only: the early answer has status
  400 and the size check answers 413.
\<close>

lemma resolve_input_Early:
  "resolve_input r = Early resp \<Longrightarrow> fst resp = 400"
  by (auto simp: resolve_input_def Let_def split: if_splits sum.splits option.splits)

lemma process_document_200D:
  assumes "fst (process_document cfg env r fs) = Inr (200, body)"
  shows "\<exists>content fname n.
           process_document cfg env r fs =
             (case save_result cfg env
                     (build_result cfg (uuid4 env) (processed_at env) content fname n) fs
              of (result', fs') \<Rightarrow> (Inr (200, JObj result'), fs'))"
proof (cases "resolve_input r")
  case (Unhandled e)
  with assms show ?thesis by (simp add: process_document_def)
next
  case (Early resp)
  with assms resolve_input_Early [OF Early] show ?thesis
    by (auto simp: process_document_def)
next
  case (Input content fname)
  show ?thesis
  proof (cases "encode_content content")
    case (Inl e)
    with assms Input show ?thesis by (simp add: process_document_def)
  next
    case (Inr encoded)
    have small: "\<not> content_size_mb (length encoded) > of_int (MAX_DOCUMENT_SIZE_MB cfg)"
      using assms Input Inr by (auto simp: process_document_def split: if_splits)
    show ?thesis
      by (intro exI [of _ content] exI [of _ fname] exI [of _ "length encoded"])
         (simp add: process_document_def Input Inr small jsonify_def)
  qed
qed

text \<open>
  The status of the answer, or the exception, is settled before the storage directory is
  touched: it is the same whatever the directory holds and however it fails.
\<close>

lemma process_document_status:
  "answer_status (fst (process_document cfg env r fs)) =
     (case resolve_input r of
        Unhandled e \<Rightarrow> Inl e
      | Early resp \<Rightarrow> Inr (fst resp)
      | Input content fname \<Rightarrow>
          (case encode_content content of
             Inl e \<Rightarrow> Inl e
           | Inr encoded \<Rightarrow>
               if content_size_mb (length encoded) > of_int (MAX_DOCUMENT_SIZE_MB cfg)
               then Inr 413 else Inr 200))"
  by (simp add: process_document_def answer_status_def jsonify_def
           split: resolved.splits sum.splits prod.splits)

section \<open>The embeddings key\<close>

lemma py_strip_Nil: "py_strip [] = []"
  by (simp add: py_strip_def)

lemma configured_iff:
  "embeddings_key_configured cfg = nonempty_after_trim (EMBEDDINGS_API_KEY cfg)"
  by (auto simp: embeddings_key_configured_def nonempty_after_trim_def py_strip_Nil
           split: option.splits)

lemma dropWhile_keeps_other:
  "(\<exists>c \<in> set (dropWhile P xs). \<not> P c) \<longleftrightarrow> (\<exists>c \<in> set xs. \<not> P c)"
  by (induction xs) auto

lemma py_strip_nonempty_iff: "py_strip k \<noteq> [] \<longleftrightarrow> (\<exists>c \<in> set k. \<not> is_space c)"
proof -
  have "py_strip k \<noteq> [] \<longleftrightarrow> (\<exists>c \<in> set (rev (dropWhile is_space k)). \<not> is_space c)"
    unfolding py_strip_def rev_is_Nil_conv dropWhile_eq_Nil_conv by blast
  also have "\<dots> \<longleftrightarrow> (\<exists>c \<in> set (dropWhile is_space k). \<not> is_space c)"
    by simp
  finally show ?thesis
    by (simp only: dropWhile_keeps_other)
qed

lemma build_result_key:
  assumes "nonempty_after_trim k1 = nonempty_after_trim k2"
  shows "build_result (cfg\<lparr>EMBEDDINGS_API_KEY := k1\<rparr>) d t c f n
           = build_result (cfg\<lparr>EMBEDDINGS_API_KEY := k2\<rparr>) d t c f n"
  using assms by (simp add: build_result_def configured_iff)

lemma open_and_load_key:
  "open_and_load (cfg\<lparr>EMBEDDINGS_API_KEY := k\<rparr>) fs name = open_and_load cfg fs name"
  by (simp add: open_and_load_def split: option.splits)

lemma save_result_key:
  "save_result (cfg\<lparr>EMBEDDINGS_API_KEY := k\<rparr>) env result fs = save_result cfg env result fs"
  by (simp add: save_result_def)

section \<open>Facts about the example inputs\<close>

lemma default_limit: "MAX_DOCUMENT_SIZE_MB default_config = 10"
  by (simp add: default_config_def)

lemma str_nat_10: "str_nat 10 = u ''10''"
  by (simp add: str_nat.simps [of 10] str_nat.simps [of "Suc 0"] u_Cons u_Nil)

lemma resolve_hello_request:
  "resolve_input hello_request = Input (JStr (u ''hello world'')) (JStr (u ''a.txt''))"
  by (simp add: hello_request_def resolve_input_def json_or_empty_def u_eq_iff)

lemma hello_world_encodable: "list_all encodable (u ''hello world'')"
  by (simp add: u_Cons u_Nil encodable_def)

lemma hello_world_size: "utf8_size (u ''hello world'') = 11"
  by (simp add: utf8_size_def utf8_width_def u_Cons u_Nil)

lemma process_hello_request:
  "process_document default_config sample_env hello_request empty_storage =
     (Inr (200, JObj (hello_record
        @ [(u ''storage'', JObj [(u ''saved'', JBool True),
             (u ''path'', JStr (u ''/tmp/processed/0b0e7a52-5c0f-4d6e-9a57-3f1c2d4e5f60.json''))])])),
      empty_storage\<lparr>entries :=
        [(u ''0b0e7a52-5c0f-4d6e-9a57-3f1c2d4e5f60.json'',
          \<lparr>json_load = Json_text (JObj hello_record), stat = Inr (written_stat sample_env)\<rparr>)]\<rparr>)"
proof -
  have path: "os_path_join (STORAGE_PATH default_config)
                  (u ''0b0e7a52-5c0f-4d6e-9a57-3f1c2d4e5f60.json'')
                = u ''/tmp/processed/0b0e7a52-5c0f-4d6e-9a57-3f1c2d4e5f60.json''"
    by (simp add: os_path_join_def startswith_def endswith_def default_config_def u_def)
  have name: "uuid4 sample_env @ u ''.json'' = u ''0b0e7a52-5c0f-4d6e-9a57-3f1c2d4e5f60.json''"
    by (simp add: sample_env_def u_def)
  have sv: "save_result default_config sample_env hello_record empty_storage =
      (hello_record
        @ [(u ''storage'', JObj [(u ''saved'', JBool True),
             (u ''path'', JStr (u ''/tmp/processed/0b0e7a52-5c0f-4d6e-9a57-3f1c2d4e5f60.json''))])],
       empty_storage\<lparr>entries :=
        [(u ''0b0e7a52-5c0f-4d6e-9a57-3f1c2d4e5f60.json'',
          \<lparr>json_load = Json_text (JObj hello_record), stat = Inr (written_stat sample_env)\<rparr>)]\<rparr>)"
    unfolding hello_record_def
    by (subst save_result_saved) (simp_all add: empty_storage_def path name)
  show ?thesis
    using process_document_reaches_save
            [OF resolve_hello_request hello_world_encodable, of default_config sample_env
                empty_storage]
    by (simp add: default_limit hello_world_size sv [unfolded hello_record_def] hello_record_def)
qed

section \<open>Reading back a stored document\<close>

text \<open>
  Claim C1 says that \<open>GET /documents/{document_id}\<close> returns the object \<open>POST /process\<close>
  returned. It does not: the file is written at line 163, before line 164 adds the member
  \<open>storage\<close> to the answer, so the stored object lacks that member. For the scenario request
  the answer of \<open>/process\<close> has \<open>storage.saved = true\<close>, the read succeeds with status 200, and the
  two bodies differ.
\<close>

theorem stored_record_lacks_storage_counterexample:
  "fst (process_document default_config sample_env hello_request empty_storage)
     = Inr (200, JObj (hello_record
         @ [(u ''storage'', JObj [(u ''saved'', JBool True),
              (u ''path'', JStr (u ''/tmp/processed/0b0e7a52-5c0f-4d6e-9a57-3f1c2d4e5f60.json''))])]))
   \<and> get_document default_config (u ''0b0e7a52-5c0f-4d6e-9a57-3f1c2d4e5f60'')
       (snd (process_document default_config sample_env hello_request empty_storage))
     = (200, JObj hello_record)
   \<and> Inr (get_document default_config (u ''0b0e7a52-5c0f-4d6e-9a57-3f1c2d4e5f60'')
            (snd (process_document default_config sample_env hello_request empty_storage)))
     \<noteq> fst (process_document default_config sample_env hello_request empty_storage)"
proof -
  have "u ''0b0e7a52-5c0f-4d6e-9a57-3f1c2d4e5f60'' @ u ''.json''
          = u ''0b0e7a52-5c0f-4d6e-9a57-3f1c2d4e5f60.json''"
    by (simp add: u_def)
  then show ?thesis
    by (simp add: process_hello_request get_document_def os_path_exists_def open_and_load_def
                  jsonify_def)
qed

text \<open>
  Claim C1, amended. When \<open>POST /process\<close> answers 200 with \<open>storage.saved = true\<close>, the body is
  a record followed by the member \<open>storage\<close>, its \<open>document_id\<close> is the identifier generated for
  the request, and \<open>GET /documents/{document_id}\<close> on the resulting storage answers 200 with
  exactly that record, which has no member \<open>storage\<close>.
\<close>

theorem get_document_returns_record_without_storage:
  assumes "fst (process_document cfg env r fs) = Inr (200, body)"
      and "json_member body (u ''storage'') = Some outcome"
      and "json_member outcome (u ''saved'') = Some (JBool True)"
  shows "\<exists>record.
           body = JObj (record @ [(u ''storage'', outcome)])
           \<and> json_member (JObj record) (u ''storage'') = None
           \<and> json_member body (u ''document_id'') = Some (JStr (uuid4 env))
           \<and> get_document cfg (uuid4 env) (snd (process_document cfg env r fs))
               = (200, JObj record)"
proof -
  obtain content fname n where
    pd: "process_document cfg env r fs =
           (case save_result cfg env
                   (build_result cfg (uuid4 env) (processed_at env) content fname n) fs
            of (result', fs') \<Rightarrow> (Inr (200, JObj result'), fs'))"
    using process_document_200D [OF assms(1)] by blast
  let ?rec = "build_result cfg (uuid4 env) (processed_at env) content fname n"
  let ?name = "uuid4 env @ u ''.json''"
  have saved: "makedirs_error fs = None \<and> write_error fs ?name = None"
  proof (cases "makedirs_error fs")
    case (Some exc)
    from assms pd show ?thesis
      by (auto simp: save_result_unavailable [OF Some] storage_of_answer u_eq_iff
               simp del: map_of_append)
  next
    case None
    show ?thesis
    proof (cases "write_error fs ?name")
      case (Some exc)
      from assms pd show ?thesis
        by (auto simp: save_result_write_error [OF None Some] storage_of_answer u_eq_iff
                 simp del: map_of_append)
    qed (simp add: None)
  qed
  then have sv: "save_result cfg env ?rec fs =
           (?rec @ [(u ''storage'', JObj [(u ''saved'', JBool True),
                    (u ''path'', JStr (os_path_join (STORAGE_PATH cfg) ?name))])],
            fs\<lparr>entries := AList.update ?name
                  \<lparr>json_load = Json_text (JObj ?rec), stat = Inr (written_stat env)\<rparr>
                  (entries fs)\<rparr>)"
    by (simp add: save_result_saved)
  have body: "body = JObj (?rec @ [(u ''storage'', outcome)])"
    using assms(1,2) by (auto simp: pd sv storage_of_answer simp del: map_of_append)
  have get: "get_document cfg (uuid4 env) (snd (process_document cfg env r fs)) = (200, JObj ?rec)"
    by (simp add: pd sv get_document_def os_path_exists_def open_and_load_def update_conv'
                  jsonify_def)
  show ?thesis
    using body get
    by (intro exI [of _ ?rec] conjI)
       (simp_all add: storage_build_result document_id_build_result del: map_of_append)
qed

theorem get_document_returns_record_without_storage_witness:
  "get_document default_config (uuid4 sample_env)
     (snd (process_document default_config sample_env hello_request empty_storage))
   = (200, JObj hello_record)"
proof -
  let ?outcome = "JObj [(u ''saved'', JBool True),
     (u ''path'', JStr (u ''/tmp/processed/0b0e7a52-5c0f-4d6e-9a57-3f1c2d4e5f60.json''))]"
  have 1: "fst (process_document default_config sample_env hello_request empty_storage)
             = Inr (200, JObj (hello_record @ [(u ''storage'', ?outcome)]))"
    by (simp add: process_hello_request)
  have 2: "json_member (JObj (hello_record @ [(u ''storage'', ?outcome)])) (u ''storage'')
             = Some ?outcome"
    by (simp add: hello_record_def storage_of_answer del: map_of_append)
  have 3: "json_member ?outcome (u ''saved'') = Some (JBool True)"
    by simp
  show ?thesis
    using get_document_returns_record_without_storage [OF 1 2 3] by auto
qed

section \<open>A multipart request without the field \<open>file\<close>\<close>

text \<open>
  Claim C2. A request that is not JSON and carries uploaded files, none of them under the
  field name \<open>file\<close>, is answered with status 400 and the body
  \<open>{"error": "No file provided"}\<close>; the storage directory is left as it was.
\<close>

theorem process_document_missing_file:
  assumes "\<not> is_json r" and "files r \<noteq> []" and "map_of (files r) (u ''file'') = None"
  shows "process_document cfg env r fs =
           (Inr (400, JObj [(u ''error'', JStr (u ''No file provided''))]), fs)"
  using assms by (simp add: process_document_def resolve_input_def)

theorem process_document_missing_file_witness:
  "process_document default_config sample_env
     \<lparr>is_json = False, get_json = None,
      files = [(u ''attachment'', \<lparr>filename = u ''notes.txt'', stream = [104, 105]\<rparr>)],
      is_form_data = True, raw_body = []\<rparr> empty_storage =
   (Inr (400, JObj [(u ''error'', JStr (u ''No file provided''))]), empty_storage)"
  by (rule process_document_missing_file) (simp_all add: u_eq_iff)

section \<open>Document ids in the listing\<close>

text \<open>
  For a file name whose only dot is the one of the suffix, such as the names \<open>process_document\<close>
  writes, line 191 gives the name without the suffix.
\<close>

lemma replace_suffix_plain:
  "46 \<notin> set stem \<Longrightarrow> py_replace (stem @ u ''.json'') (u ''.json'') [] = stem"
proof (induction stem)
  case Nil
  then show ?case
    by (simp add: py_replace_def startswith_def u_Cons u_Nil eval_nat_numeral)
next
  case (Cons c cs)
  then have "\<not> startswith (c # cs @ u ''.json'') (u ''.json'')"
    by (auto simp: startswith_def u_Cons u_Nil)
  with Cons show ?case
    by (simp add: py_replace_def u_eq_Nil_iff)
qed

text \<open>
  Claim C3 says that the listing reports each file \<open>name.json\<close> under the id \<open>name\<close>, interior
  occurrences of \<open>.json\<close> kept. Line 191 uses \<open>filename.replace(".json", "")\<close>, which removes
  every occurrence: a directory holding the one file \<open>report.json.json\<close> is listed with the
  document id \<open>report\<close>, where the claim asks for \<open>report.json\<close>. The listed id does not
  fetch the file, since \<open>get_document\<close> appends the suffix once: \<open>report\<close> is answered with
  404 and \<open>report.json\<close> with the file.
\<close>

theorem list_documents_interior_suffix:
  "list_documents default_config stray_storage =
     (200, JObj [(u ''documents'', JArr
                    [JObj [(u ''document_id'', JStr (u ''report'')),
                           (u ''size_bytes'', JInt 2),
                           (u ''created_at'', JStr (u ''2024-05-01T12:00:00Z''))]]),
                 (u ''count'', JInt 1)])
   \<and> get_document default_config (u ''report'') stray_storage
       = (404, JObj [(u ''error'', JStr (u ''Document not found''))])
   \<and> get_document default_config (u ''report.json'') stray_storage = (200, JObj [])"
proof -
  have names: "u ''report'' @ u ''.json'' = u ''report.json''"
              "u ''report.json'' @ u ''.json'' = u ''report.json.json''"
    by (simp_all add: u_def)
  have listing: "list_documents default_config stray_storage =
     (200, JObj [(u ''documents'', JArr
                    [JObj [(u ''document_id'', JStr (u ''report'')),
                           (u ''size_bytes'', JInt 2),
                           (u ''created_at'', JStr (u ''2024-05-01T12:00:00Z''))]]),
                 (u ''count'', JInt 1)])"
    by (simp add: list_documents_def stray_storage_def empty_storage_def
          ensure_storage_directory_def jsonify_def endswith_def py_replace_def startswith_def
          u_Cons u_Nil eval_nat_numeral)
  have fetch: "get_document default_config (u ''report'') stray_storage
                 = (404, JObj [(u ''error'', JStr (u ''Document not found''))])"
              "get_document default_config (u ''report.json'') stray_storage = (200, JObj [])"
    by (simp_all add: get_document_def os_path_exists_def open_and_load_def names
          stray_storage_def empty_storage_def u_eq_iff jsonify_def)
  show ?thesis
    using listing fetch by simp
qed

section \<open>Documents over the size limit\<close>

text \<open>
  Claim C4. When the content resolved from the request is a text whose UTF-8 encoding has more
  octets than \<open>MAX_DOCUMENT_SIZE_MB\<close> mebibytes, the answer has status 413 and the body
  \<open>{"error": "Document exceeds maximum size of <MAX_DOCUMENT_SIZE_MB> MB"}\<close>, and the storage
  directory is unchanged: no record is built and no file is written.
\<close>

theorem process_document_too_large:
  assumes "resolve_input r = Input (JStr s) fname"
      and "list_all encodable s"
      and "int (utf8_size s) > MAX_DOCUMENT_SIZE_MB cfg * (1024 * 1024)"
  shows "process_document cfg env r fs =
           (Inr (413, JObj [(u ''error'',
               JStr (u ''Document exceeds maximum size of ''
                     @ str_int (MAX_DOCUMENT_SIZE_MB cfg) @ u '' MB''))]), fs)"
proof -
  obtain encoded where enc: "utf8_encode s = Inr encoded"
    using utf8_encode_total [OF assms(2)] by blast
  have len: "length encoded = utf8_size s"
    by (rule utf8_encode_length [OF enc])
  have "content_size_mb (length encoded) > of_int (MAX_DOCUMENT_SIZE_MB cfg)"
    using assms(3) by (simp add: size_check_iff len)
  then show ?thesis
    by (simp add: process_document_def assms(1) enc)
qed

theorem process_document_too_large_witness:
  "process_document default_config sample_env
     \<lparr>is_json = True, get_json = Some (JObj [(u ''content'', JStr (replicate 10485761 97))]),
      files = [], is_form_data = False, raw_body = []\<rparr> empty_storage =
   (Inr (413, JObj [(u ''error'', JStr (u ''Document exceeds maximum size of 10 MB''))]),
    empty_storage)"
proof -
  let ?r = "\<lparr>is_json = True, get_json = Some (JObj [(u ''content'', JStr (replicate 10485761 97))]),
      files = [], is_form_data = False, raw_body = []\<rparr>"
  have 1: "resolve_input ?r = Input (JStr (replicate 10485761 97)) (JStr (u ''document.txt''))"
    by (simp add: resolve_input_def json_or_empty_def u_eq_iff)
  have 2: "list_all encodable (replicate 10485761 97)"
    by (simp add: list_all_iff encodable_def)
  have 3: "int (utf8_size (replicate 10485761 97)) > MAX_DOCUMENT_SIZE_MB default_config * (1024 * 1024)"
    by (simp add: utf8_size_def utf8_width_def sum_list_replicate default_config_def)
  have 4: "u ''Document exceeds maximum size of '' @ str_int (MAX_DOCUMENT_SIZE_MB default_config) @ u '' MB''
           = u ''Document exceeds maximum size of 10 MB''"
    by (simp add: default_config_def str_int_def str_nat_10 u_def)
  show ?thesis
    using process_document_too_large [OF 1 2 3, of sample_env empty_storage] by (simp only: 4)
qed

section \<open>The statistics of a document\<close>

text \<open>
  Claim C5. When the content resolved from the request is a text whose UTF-8 encoding is within
  the limit, the answer has status 200 and its member \<open>statistics\<close> holds the number of
  characters of the content as \<open>character_count\<close>, the number of its whitespace-delimited tokens
  as \<open>word_count\<close> and the size of its UTF-8 encoding as \<open>size_bytes\<close>.
\<close>

theorem process_document_statistics:
  assumes "resolve_input r = Input (JStr s) fname"
      and "list_all encodable s"
      and "int (utf8_size s) \<le> MAX_DOCUMENT_SIZE_MB cfg * (1024 * 1024)"
  shows "\<exists>body stats.
           fst (process_document cfg env r fs) = Inr (200, body)
           \<and> json_member body (u ''statistics'') = Some stats
           \<and> json_member stats (u ''character_count'') = Some (JInt (int (length s)))
           \<and> json_member stats (u ''word_count'') = Some (JInt (int (token_count s)))
           \<and> json_member stats (u ''size_bytes'') = Some (JInt (int (utf8_size s)))"
proof -
  let ?rec = "build_result cfg (uuid4 env) (processed_at env) (JStr s) fname (utf8_size s)"
  obtain outcome fs' where
    sv: "save_result cfg env ?rec fs = (?rec @ [(u ''storage'', outcome)], fs')"
    using save_result_appends by blast
  have resp: "fst (process_document cfg env r fs)
                = Inr (200, JObj (?rec @ [(u ''storage'', outcome)]))"
    by (simp add: process_document_reaches_save [OF assms] sv)
  have stats: "json_member (JObj (?rec @ [(u ''storage'', outcome)])) (u ''statistics'') =
      Some (JObj [(u ''character_count'', JInt (int (length s))),
                  (u ''word_count'', JInt (int (token_count s))),
                  (u ''size_bytes'', JInt (int (utf8_size s)))])"
    by (simp add: statistics_build_result length_py_split del: map_of_append)
  show ?thesis
    using resp stats by (intro exI conjI) (assumption, assumption, simp_all add: u_eq_iff)
qed

theorem process_document_statistics_witness:
  "(\<exists>body stats.
      fst (process_document default_config sample_env hello_request empty_storage) = Inr (200, body)
      \<and> json_member body (u ''statistics'') = Some stats
      \<and> json_member stats (u ''character_count'') = Some (JInt 11)
      \<and> json_member stats (u ''word_count'') = Some (JInt 2)
      \<and> json_member stats (u ''size_bytes'') = Some (JInt 11))
   \<and> (\<exists>body stats.
      fst (process_document default_config sample_env cafe_request empty_storage) = Inr (200, body)
      \<and> json_member body (u ''statistics'') = Some stats
      \<and> json_member stats (u ''character_count'') = Some (JInt 12)
      \<and> json_member stats (u ''word_count'') = Some (JInt 3)
      \<and> json_member stats (u ''size_bytes'') = Some (JInt 14))"
proof -
  have 1: "token_count (u ''hello world'') = 2"
    by (simp add: token_count_def is_space_def u_Cons u_Nil)
  have 2: "length (u ''hello world'') = 11"
    by (simp add: u_def)
  let ?cafe = "[0x63, 0x61, 0x66, 0xE9, 0x20, 0x61, 0x75, 0xA0, 0x6C, 0x61, 0x69, 0x74]"
  have 3: "resolve_input cafe_request = Input (JStr ?cafe) (JStr (u ''document.txt''))"
    by (simp add: cafe_request_def resolve_input_def json_or_empty_def u_eq_iff)
  have 4: "list_all encodable ?cafe"
    by (simp add: encodable_def)
  have 5: "utf8_size ?cafe = 14"
    by (simp add: utf8_size_def utf8_width_def)
  have 6: "token_count ?cafe = 3"
    by (simp add: token_count_def is_space_def)
  show ?thesis
    using process_document_statistics
            [OF resolve_hello_request hello_world_encodable, of default_config sample_env
                empty_storage]
          process_document_statistics [OF 3 4, of default_config sample_env empty_storage]
    by (simp add: 1 2 5 6 hello_world_size default_limit)
qed

section \<open>Storage failures\<close>

text \<open>
  Claim C6. A failing storage directory never turns into an error status. For a request that
  passes the size check, \<open>POST /process\<close> answers 200 with the full record and the storage
  outcome \<open>{"saved": false, "reason": "Storage not available"}\<close> when the directory cannot be
  made, and \<open>{"saved": false, "error": <message>}\<close> when writing the file raises; the
  directory is unchanged, but for the cut-off file a write leaves behind when it raises after
  the file was opened. \<open>GET /documents\<close> answers 200 with
  \<open>{"documents": [], "error": "Storage not available"}\<close> when the directory cannot be made and
  with \<open>{"documents": [], "error": <message>}\<close> when listing it or reading the metadata of a
  listed file raises; its status is 200 in every case. For every request whatever, the status
  of the answer of \<open>POST /process\<close> is the same for any two states of the storage directory.
\<close>

theorem storage_failures_answer_200:
  "(resolve_input r = Input (JStr s) fname \<and> list_all encodable s
      \<and> int (utf8_size s) \<le> MAX_DOCUMENT_SIZE_MB cfg * (1024 * 1024) \<longrightarrow>
      (\<forall>exc. makedirs_error fs = Some exc \<longrightarrow>
         process_document cfg env r fs =
           (Inr (200, JObj (build_result cfg (uuid4 env) (processed_at env) (JStr s) fname
                              (utf8_size s)
                            @ [(u ''storage'', JObj [(u ''saved'', JBool False),
                                  (u ''reason'', JStr (u ''Storage not available''))])])), fs))
      \<and> (\<forall>fault. makedirs_error fs = None
                  \<and> write_error fs (uuid4 env @ u ''.json'') = Some fault \<longrightarrow>
         process_document cfg env r fs =
           (Inr (200, JObj (build_result cfg (uuid4 env) (processed_at env) (JStr s) fname
                              (utf8_size s)
                            @ [(u ''storage'', JObj [(u ''saved'', JBool False),
                                  (u ''error'', JStr (fault_message fault))])])),
            case fault of
              Open_raises exc \<Rightarrow> fs
            | Dump_raises exc load_exc st \<Rightarrow>
                fs\<lparr>entries := AList.update (uuid4 env @ u ''.json'')
                     \<lparr>json_load = Load_error load_exc, stat = Inr st\<rparr> (entries fs)\<rparr>)))
   \<and> (\<forall>exc. makedirs_error fs = Some exc \<longrightarrow>
         list_documents cfg fs =
           (200, JObj [(u ''documents'', JArr []),
                       (u ''error'', JStr (u ''Storage not available''))]))
   \<and> (\<forall>exc. makedirs_error fs = None
             \<and> (listdir_error fs = Some exc
                  \<or> listdir_error fs = None \<and> list_entries (entries fs) = Inl exc) \<longrightarrow>
         list_documents cfg fs = (200, JObj [(u ''documents'', JArr []), (u ''error'', JStr exc)]))
   \<and> fst (list_documents cfg fs) = 200
   \<and> answer_status (fst (process_document cfg env r fs))
       = answer_status (fst (process_document cfg env r fs'))"
proof (intro conjI impI allI)
  fix exc
  assume a: "resolve_input r = Input (JStr s) fname \<and> list_all encodable s
      \<and> int (utf8_size s) \<le> MAX_DOCUMENT_SIZE_MB cfg * (1024 * 1024)"
    and m: "makedirs_error fs = Some exc"
  show "process_document cfg env r fs =
           (Inr (200, JObj (build_result cfg (uuid4 env) (processed_at env) (JStr s) fname
                              (utf8_size s)
                            @ [(u ''storage'', JObj [(u ''saved'', JBool False),
                                  (u ''reason'', JStr (u ''Storage not available''))])])), fs)"
    using a by (simp add: process_document_reaches_save save_result_unavailable [OF m])
next
  fix fault
  assume a: "resolve_input r = Input (JStr s) fname \<and> list_all encodable s
      \<and> int (utf8_size s) \<le> MAX_DOCUMENT_SIZE_MB cfg * (1024 * 1024)"
    and w: "makedirs_error fs = None \<and> write_error fs (uuid4 env @ u ''.json'') = Some fault"
  show "process_document cfg env r fs =
           (Inr (200, JObj (build_result cfg (uuid4 env) (processed_at env) (JStr s) fname
                              (utf8_size s)
                            @ [(u ''storage'', JObj [(u ''saved'', JBool False),
                                  (u ''error'', JStr (fault_message fault))])])),
            case fault of
              Open_raises exc \<Rightarrow> fs
            | Dump_raises exc load_exc st \<Rightarrow>
                fs\<lparr>entries := AList.update (uuid4 env @ u ''.json'')
                     \<lparr>json_load = Load_error load_exc, stat = Inr st\<rparr> (entries fs)\<rparr>)"
    using a w by (simp add: process_document_reaches_save save_result_write_error)
next
  fix exc
  assume "makedirs_error fs = Some exc"
  then show "list_documents cfg fs =
           (200, JObj [(u ''documents'', JArr []),
                       (u ''error'', JStr (u ''Storage not available''))])"
    by (simp add: list_documents_def ensure_storage_directory_def jsonify_def)
next
  fix exc
  assume "makedirs_error fs = None
             \<and> (listdir_error fs = Some exc
                  \<or> listdir_error fs = None \<and> list_entries (entries fs) = Inl exc)"
  then show "list_documents cfg fs =
               (200, JObj [(u ''documents'', JArr []), (u ''error'', JStr exc)])"
    by (auto simp: list_documents_def ensure_storage_directory_def jsonify_def)
next
  show "fst (list_documents cfg fs) = 200"
    by (simp add: list_documents_def jsonify_def split: option.splits sum.splits)
next
  show "answer_status (fst (process_document cfg env r fs))
          = answer_status (fst (process_document cfg env r fs'))"
    by (simp add: process_document_status)
qed

theorem storage_failures_answer_200_witness:
  "process_document default_config sample_env hello_request unavailable_storage =
     (Inr (200, JObj (hello_record
        @ [(u ''storage'', JObj [(u ''saved'', JBool False),
                                 (u ''reason'', JStr (u ''Storage not available''))])])),
      unavailable_storage)
   \<and> process_document default_config sample_env hello_request readonly_storage =
     (Inr (200, JObj (hello_record
        @ [(u ''storage'', JObj [(u ''saved'', JBool False),
                                 (u ''error'', JStr (u ''[Errno 13] Permission denied''))])])),
      readonly_storage)
   \<and> process_document default_config sample_env hello_request full_storage =
     (Inr (200, JObj (hello_record
        @ [(u ''storage'', JObj [(u ''saved'', JBool False),
                                 (u ''error'', JStr (u ''[Errno 28] No space left on device''))])])),
      full_storage\<lparr>entries :=
        [(uuid4 sample_env @ u ''.json'',
          \<lparr>json_load = Load_error (u ''Expecting value: line 1 column 1 (char 0)''),
             stat = Inr (0, u ''2024-05-01T12:00:00.000000+00:00'')\<rparr>)]\<rparr>)
   \<and> list_documents default_config unavailable_storage =
     (200, JObj [(u ''documents'', JArr []), (u ''error'', JStr (u ''Storage not available''))])
   \<and> list_documents default_config unlistable_storage =
     (200, JObj [(u ''documents'', JArr []),
                 (u ''error'', JStr (u ''[Errno 13] Permission denied''))])"
proof -
  have m: "makedirs_error unavailable_storage = Some (u ''[Errno 13] Permission denied'')"
    by (simp add: unavailable_storage_def)
  have o: "makedirs_error readonly_storage = None"
          "write_error readonly_storage (uuid4 sample_env @ u ''.json'')
             = Some (Open_raises (u ''[Errno 13] Permission denied''))"
    by (simp_all add: readonly_storage_def empty_storage_def)
  have w: "makedirs_error full_storage = None"
          "write_error full_storage (uuid4 sample_env @ u ''.json'')
             = Some (Dump_raises (u ''[Errno 28] No space left on device'')
                       (u ''Expecting value: line 1 column 1 (char 0)'')
                       (0, u ''2024-05-01T12:00:00.000000+00:00''))"
          "entries full_storage = []"
    by (simp_all add: full_storage_def empty_storage_def)
  have l: "makedirs_error unlistable_storage = None"
          "listdir_error unlistable_storage = Some (u ''[Errno 13] Permission denied'')"
    by (simp_all add: unlistable_storage_def empty_storage_def)
  show ?thesis
    using storage_failures_answer_200
            [of hello_request "u ''hello world''" "JStr (u ''a.txt'')" default_config
                unavailable_storage sample_env empty_storage]
          storage_failures_answer_200
            [of hello_request "u ''hello world''" "JStr (u ''a.txt'')" default_config
                readonly_storage sample_env empty_storage]
          storage_failures_answer_200
            [of hello_request "u ''hello world''" "JStr (u ''a.txt'')" default_config
                full_storage sample_env empty_storage]
          storage_failures_answer_200
            [of hello_request "u ''hello world''" "JStr (u ''a.txt'')" default_config
                unlistable_storage sample_env empty_storage]
    by (simp add: resolve_hello_request hello_world_encodable default_limit m o w l
                  hello_record_def hello_world_size)
qed

section \<open>Fetching one document\<close>




section \<open>The embeddings key stays hidden\<close>

text \<open>
  Claim C8. Two values of \<open>EMBEDDINGS_API_KEY\<close> that agree on being non-empty after trimming
  whitespace give the same answer at every endpoint that reads the configuration (\<open>health\<close>
  reads none): the key reaches an answer only as the flag
  \<open>embeddings_api_key_configured\<close>, which is true exactly when the key is set and non-empty
  after trimming.
\<close>

theorem embeddings_key_shows_only_as_flag:
  assumes "nonempty_after_trim k1 = nonempty_after_trim k2"
  shows "root_handler (cfg\<lparr>EMBEDDINGS_API_KEY := k1\<rparr>) = root_handler (cfg\<lparr>EMBEDDINGS_API_KEY := k2\<rparr>)
       \<and> process_document (cfg\<lparr>EMBEDDINGS_API_KEY := k1\<rparr>) env r fs
           = process_document (cfg\<lparr>EMBEDDINGS_API_KEY := k2\<rparr>) env r fs
       \<and> list_documents (cfg\<lparr>EMBEDDINGS_API_KEY := k1\<rparr>) fs
           = list_documents (cfg\<lparr>EMBEDDINGS_API_KEY := k2\<rparr>) fs
       \<and> get_document (cfg\<lparr>EMBEDDINGS_API_KEY := k1\<rparr>) doc_id fs
           = get_document (cfg\<lparr>EMBEDDINGS_API_KEY := k2\<rparr>) doc_id fs
       \<and> embeddings_key_configured (cfg\<lparr>EMBEDDINGS_API_KEY := k1\<rparr>) = nonempty_after_trim k1
       \<and> json_member (snd (root_handler (cfg\<lparr>EMBEDDINGS_API_KEY := k1\<rparr>))) (u ''secrets'')
           = Some (JObj [(u ''embeddings_api_key_configured'', JBool (nonempty_after_trim k1))])"
proof (intro conjI)
  show "root_handler (cfg\<lparr>EMBEDDINGS_API_KEY := k1\<rparr>) = root_handler (cfg\<lparr>EMBEDDINGS_API_KEY := k2\<rparr>)"
    using assms by (simp add: root_handler_def configured_iff)
  show "process_document (cfg\<lparr>EMBEDDINGS_API_KEY := k1\<rparr>) env r fs
           = process_document (cfg\<lparr>EMBEDDINGS_API_KEY := k2\<rparr>) env r fs"
    by (simp add: process_document_def build_result_key [OF assms] save_result_key
             split: resolved.splits sum.splits)
  show "list_documents (cfg\<lparr>EMBEDDINGS_API_KEY := k1\<rparr>) fs
           = list_documents (cfg\<lparr>EMBEDDINGS_API_KEY := k2\<rparr>) fs"
    by (simp add: list_documents_def)
  show "get_document (cfg\<lparr>EMBEDDINGS_API_KEY := k1\<rparr>) doc_id fs
           = get_document (cfg\<lparr>EMBEDDINGS_API_KEY := k2\<rparr>) doc_id fs"
    by (simp add: get_document_def open_and_load_key Let_def)
  show "embeddings_key_configured (cfg\<lparr>EMBEDDINGS_API_KEY := k1\<rparr>) = nonempty_after_trim k1"
    by (simp add: configured_iff)
  show "json_member (snd (root_handler (cfg\<lparr>EMBEDDINGS_API_KEY := k1\<rparr>))) (u ''secrets'')
           = Some (JObj [(u ''embeddings_api_key_configured'', JBool (nonempty_after_trim k1))])"
    by (simp add: root_handler_def jsonify_def configured_iff u_eq_iff)
qed

theorem embeddings_key_shows_only_as_flag_witness:
  "root_handler (default_config\<lparr>EMBEDDINGS_API_KEY := Some (u ''sk-first-key'')\<rparr>)
     = root_handler (default_config\<lparr>EMBEDDINGS_API_KEY := Some (u '' another key  '')\<rparr>)
   \<and> process_document (default_config\<lparr>EMBEDDINGS_API_KEY := Some (u ''sk-first-key'')\<rparr>)
        sample_env hello_request empty_storage
     = process_document (default_config\<lparr>EMBEDDINGS_API_KEY := Some (u '' another key  '')\<rparr>)
        sample_env hello_request empty_storage
   \<and> json_member (snd (root_handler (default_config\<lparr>EMBEDDINGS_API_KEY := Some (u ''sk-first-key'')\<rparr>)))
        (u ''secrets'')
     = Some (JObj [(u ''embeddings_api_key_configured'', JBool True)])"
proof -
  have 1: "nonempty_after_trim (Some (u ''sk-first-key''))"
    by (simp add: nonempty_after_trim_def py_strip_def is_space_def u_Cons u_Nil)
  have 2: "nonempty_after_trim (Some (u '' another key  ''))"
    by (simp add: nonempty_after_trim_def py_strip_def is_space_def u_Cons u_Nil)
  show ?thesis
    using embeddings_key_shows_only_as_flag
            [of "Some (u ''sk-first-key'')" "Some (u '' another key  '')" default_config
                sample_env hello_request empty_storage "[]"]
    by (auto simp: 1 2)
qed

section \<open>A raw request body\<close>

text \<open>
  Claim C9 says that for every request that is neither JSON nor a file upload the content is
  the raw body, decoded. Line 100 decodes \<open>request.data\<close>, which is empty when the body is
  form data: a form-encoded request with the body \<open>note=hello\<close> and no file is neither JSON nor
  a file upload, its raw body is the UTF-8 encoding of \<open>note=hello\<close>, and its content is
  \<open>Sample document\<close>.
\<close>

theorem form_body_is_not_the_document_counterexample:
  "is_json form_request = False
   \<and> files form_request = []
   \<and> utf8_encode (u ''note=hello'') = Inr (raw_body form_request)
   \<and> utf8_decode_ignore (raw_body form_request) = u ''note=hello''
   \<and> resolve_input form_request
       = Input (JStr (u ''Sample document'')) (JStr (u ''document.txt''))
   \<and> resolve_input form_request \<noteq> Input (JStr (u ''note=hello'')) (JStr (u ''document.txt''))"
proof -
  have enc: "utf8_encode (u ''note=hello'') = Inr (u ''note=hello'')"
    by (simp add: u_Cons u_Nil encodable_def utf8_char_def)
  have dec: "utf8_decode_ignore (u ''note=hello'') = u ''note=hello''"
    by (rule utf8_decode_ignore_encode [OF enc])
  have ri: "resolve_input form_request
              = Input (JStr (u ''Sample document'')) (JStr (u ''document.txt''))"
    by (simp add: resolve_input_def form_request_def data_def u_eq_Nil_iff)
  show ?thesis
    by (simp add: ri u_eq_iff) (simp add: form_request_def enc dec)
qed

text \<open>
  Claim C9, amended. For a request that is neither JSON nor a file upload the file name is
  \<open>document.txt\<close> and the content is \<open>request.data\<close> decoded as UTF-8 with malformed octets
  ignored, or the text \<open>Sample document\<close> when nothing is left. \<open>request.data\<close> is empty when the
  body is form data, so the content is then \<open>Sample document\<close>; otherwise it is the raw body.
  Decoding gives back what was encoded and drops the rest: a raw body made of the encoding of
  a text, octets that start no sequence, the encoding of a second text and possibly a lead
  octet cut off by the end decodes to the two texts joined. The content is never empty and
  always has a UTF-8 encoding, so within the size limit the answer is 200 with the file name
  \<open>document.txt\<close> and the number of characters of that content.
\<close>

theorem raw_body_is_the_document:
  assumes "\<not> is_json r" and "files r = []"
  shows "(is_form_data r \<longrightarrow>
            resolve_input r = Input (JStr (u ''Sample document'')) (JStr (u ''document.txt'')))
         \<and> (\<not> is_form_data r \<longrightarrow>
              resolve_input r =
                Input (JStr (if utf8_decode_ignore (raw_body r) = [] then u ''Sample document''
                             else utf8_decode_ignore (raw_body r)))
                      (JStr (u ''document.txt''))
              \<and> (\<forall>s1 e1 junk s2 e2 tail.
                    utf8_encode s1 = Inr e1 \<and> list_all stray_octet junk
                    \<and> utf8_encode s2 = Inr e2 \<and> cut_off tail
                    \<and> raw_body r = e1 @ junk @ e2 @ tail \<longrightarrow>
                    resolve_input r =
                      Input (JStr (if s1 @ s2 = [] then u ''Sample document'' else s1 @ s2))
                            (JStr (u ''document.txt''))))
         \<and> (\<exists>content.
               resolve_input r = Input (JStr content) (JStr (u ''document.txt''))
               \<and> content \<noteq> []
               \<and> list_all encodable content
               \<and> (int (utf8_size content) \<le> MAX_DOCUMENT_SIZE_MB cfg * (1024 * 1024) \<longrightarrow>
                    (\<exists>body stats.
                       fst (process_document cfg env r fs) = Inr (200, body)
                       \<and> json_member body (u ''filename'') = Some (JStr (u ''document.txt''))
                       \<and> json_member body (u ''statistics'') = Some stats
                       \<and> json_member stats (u ''character_count'')
                           = Some (JInt (int (length content))))))"
proof (intro conjI impI allI)
  define content where
    "content = (if utf8_decode_ignore (data r) = [] then u ''Sample document''
                else utf8_decode_ignore (data r))"
  have ri: "resolve_input r = Input (JStr content) (JStr (u ''document.txt''))"
    using assms by (simp add: resolve_input_def Let_def content_def)
  {
    assume "is_form_data r"
    then show "resolve_input r = Input (JStr (u ''Sample document'')) (JStr (u ''document.txt''))"
      by (simp add: ri content_def data_def)
  }
  {
    assume "\<not> is_form_data r"
    then show "resolve_input r =
                Input (JStr (if utf8_decode_ignore (raw_body r) = [] then u ''Sample document''
                             else utf8_decode_ignore (raw_body r)))
                      (JStr (u ''document.txt''))"
      by (simp add: ri content_def data_def)
  }
  {
    fix s1 e1 junk s2 e2 tail
    assume nf: "\<not> is_form_data r"
      and parts: "utf8_encode s1 = Inr e1 \<and> list_all stray_octet junk
                    \<and> utf8_encode s2 = Inr e2 \<and> cut_off tail
                    \<and> raw_body r = e1 @ junk @ e2 @ tail"
    have "utf8_decode_ignore (raw_body r) = s1 @ s2"
      using parts utf8_decode_ignore_parts [of s1 e1 junk s2 e2 tail] by simp
    with nf show "resolve_input r =
                      Input (JStr (if s1 @ s2 = [] then u ''Sample document'' else s1 @ s2))
                            (JStr (u ''document.txt''))"
      by (simp add: ri content_def data_def)
  }
  have sample: "list_all encodable (u ''Sample document'')"
    by (simp add: u_Cons u_Nil encodable_def)
  have enc: "list_all encodable content"
    unfolding content_def using sample utf8_decode_ignore_encodable [of "data r"]
    by (simp only: split: if_split) blast
  have ne: "content \<noteq> []"
    by (simp add: content_def u_eq_Nil_iff)
  have answer: "\<exists>body stats.
                    fst (process_document cfg env r fs) = Inr (200, body)
                    \<and> json_member body (u ''filename'') = Some (JStr (u ''document.txt''))
                    \<and> json_member body (u ''statistics'') = Some stats
                    \<and> json_member stats (u ''character_count'')
                        = Some (JInt (int (length content)))"
    if small: "int (utf8_size content) \<le> MAX_DOCUMENT_SIZE_MB cfg * (1024 * 1024)"
  proof -
    obtain outcome fs' where
      pd: "process_document cfg env r fs =
             (Inr (200, JObj (build_result cfg (uuid4 env) (processed_at env) (JStr content)
                                (JStr (u ''document.txt'')) (utf8_size content)
                              @ [(u ''storage'', outcome)])), fs')"
      using process_document_answers_record [OF ri enc small, of env fs] by blast
    show ?thesis
      by (simp add: pd filename_build_result statistics_build_result u_eq_iff
               del: map_of_append)
  qed
  show "\<exists>content.
               resolve_input r = Input (JStr content) (JStr (u ''document.txt''))
               \<and> content \<noteq> []
               \<and> list_all encodable content
               \<and> (int (utf8_size content) \<le> MAX_DOCUMENT_SIZE_MB cfg * (1024 * 1024) \<longrightarrow>
                    (\<exists>body stats.
                       fst (process_document cfg env r fs) = Inr (200, body)
                       \<and> json_member body (u ''filename'') = Some (JStr (u ''document.txt''))
                       \<and> json_member body (u ''statistics'') = Some stats
                       \<and> json_member stats (u ''character_count'')
                           = Some (JInt (int (length content)))))"
    using ri ne enc answer by blast
qed

theorem raw_body_is_the_document_witness:
  "resolve_input form_request = Input (JStr (u ''Sample document'')) (JStr (u ''document.txt''))
   \<and> resolve_input text_request = Input (JStr (u ''note=hello'')) (JStr (u ''document.txt''))
   \<and> resolve_input cut_request
       = Input (JStr [0x63, 0x61, 0x66, 0xE9, 0x21]) (JStr (u ''document.txt''))
   \<and> resolve_input junk_request
       = Input (JStr (u ''Sample document'')) (JStr (u ''document.txt''))"
proof -
  have form: "\<not> is_json form_request" "files form_request = []" "is_form_data form_request"
    by (simp_all add: form_request_def)
  have a: "resolve_input form_request
             = Input (JStr (u ''Sample document'')) (JStr (u ''document.txt''))"
    using raw_body_is_the_document
            [OF form(1,2), of default_config sample_env empty_storage] form(3)
    by blast
  have plain: "\<not> is_json text_request" "files text_request = []"
              "\<not> is_form_data text_request"
    by (simp_all add: text_request_def)
  have plain_body: "raw_body text_request = u ''note=hello'' @ [] @ [] @ []"
    by (simp add: text_request_def)
  have enc: "utf8_encode (u ''note=hello'') = Inr (u ''note=hello'')"
    by (simp add: u_Cons u_Nil encodable_def utf8_char_def)
  have "resolve_input text_request =
          Input (JStr (if u ''note=hello'' @ [] = [] then u ''Sample document''
                       else u ''note=hello'' @ []))
                (JStr (u ''document.txt''))"
  proof -
    have "\<forall>s1 e1 junk s2 e2 tail.
            utf8_encode s1 = Inr e1 \<and> list_all stray_octet junk
            \<and> utf8_encode s2 = Inr e2 \<and> cut_off tail
            \<and> raw_body text_request = e1 @ junk @ e2 @ tail \<longrightarrow>
            resolve_input text_request =
              Input (JStr (if s1 @ s2 = [] then u ''Sample document'' else s1 @ s2))
                    (JStr (u ''document.txt''))"
      using raw_body_is_the_document
              [OF plain(1,2), of default_config sample_env empty_storage] plain(3)
      by blast
    from this [rule_format, of "u ''note=hello''" "u ''note=hello''" "[]" "[]" "[]" "[]"]
    show ?thesis
      by (simp add: enc plain_body cut_off_def del: utf8_encode.simps(2))
  qed
  then have b: "resolve_input text_request
                  = Input (JStr (u ''note=hello'')) (JStr (u ''document.txt''))"
    by (simp add: u_eq_Nil_iff)
  have cut: "\<not> is_json cut_request" "files cut_request = []" "\<not> is_form_data cut_request"
    by (simp_all add: cut_request_def)
  have cut_body:
    "raw_body cut_request = [0x63, 0x61, 0x66, 0xC3, 0xA9] @ [0xFF] @ [0x21] @ [0xC3]"
    by (simp add: cut_request_def)
  have cafe: "utf8_encode [0x63, 0x61, 0x66, 0xE9] = Inr [0x63, 0x61, 0x66, 0xC3, 0xA9]"
             "utf8_encode [0x21] = Inr [0x21]"
    by (simp_all add: encodable_def utf8_char_def)
  have "resolve_input cut_request =
          Input (JStr (if [0x63, 0x61, 0x66, 0xE9] @ [0x21] = [] then u ''Sample document''
                       else [0x63, 0x61, 0x66, 0xE9] @ [0x21]))
                (JStr (u ''document.txt''))"
  proof -
    have "\<forall>s1 e1 junk s2 e2 tail.
            utf8_encode s1 = Inr e1 \<and> list_all stray_octet junk
            \<and> utf8_encode s2 = Inr e2 \<and> cut_off tail
            \<and> raw_body cut_request = e1 @ junk @ e2 @ tail \<longrightarrow>
            resolve_input cut_request =
              Input (JStr (if s1 @ s2 = [] then u ''Sample document'' else s1 @ s2))
                    (JStr (u ''document.txt''))"
      using raw_body_is_the_document
              [OF cut(1,2), of default_config sample_env empty_storage] cut(3)
      by blast
    from this [rule_format, of "[0x63, 0x61, 0x66, 0xE9]" "[0x63, 0x61, 0x66, 0xC3, 0xA9]"
                               "[0xFF]" "[0x21]" "[0x21]" "[0xC3]"]
    show ?thesis
      by (simp add: cafe cut_body cut_off_def lead_octet_def stray_octet_def
               del: utf8_encode.simps(2))
  qed
  then have c: "resolve_input cut_request
                  = Input (JStr [0x63, 0x61, 0x66, 0xE9, 0x21]) (JStr (u ''document.txt''))"
    by simp
  have junk: "\<not> is_json junk_request" "files junk_request = []"
             "\<not> is_form_data junk_request"
    by (simp_all add: junk_request_def)
  have junk_body: "raw_body junk_request = [] @ [0xFF, 0x80] @ [] @ []"
    by (simp add: junk_request_def)
  have "resolve_input junk_request =
          Input (JStr (if [] @ [] = [] then u ''Sample document'' else [] @ []))
                (JStr (u ''document.txt''))"
  proof -
    have "\<forall>s1 e1 junk s2 e2 tail.
            utf8_encode s1 = Inr e1 \<and> list_all stray_octet junk
            \<and> utf8_encode s2 = Inr e2 \<and> cut_off tail
            \<and> raw_body junk_request = e1 @ junk @ e2 @ tail \<longrightarrow>
            resolve_input junk_request =
              Input (JStr (if s1 @ s2 = [] then u ''Sample document'' else s1 @ s2))
                    (JStr (u ''document.txt''))"
      using raw_body_is_the_document
              [OF junk(1,2), of default_config sample_env empty_storage] junk(3)
      by blast
    from this [rule_format, of "[]" "[]" "[0xFF, 0x80]" "[]" "[]" "[]"]
    show ?thesis
      by (simp add: junk_body cut_off_def stray_octet_def)
  qed
  then have d: "resolve_input junk_request
                  = Input (JStr (u ''Sample document'')) (JStr (u ''document.txt''))"
    by simp
  show ?thesis
    using a b c d by simp
qed

section \<open>A JSON request whose body does not parse\<close>

text \<open>
  Claim C10 says that a request with a JSON content type and an unparsable body is always
  answered with status 200. The size check still applies to the empty content, and a negative
  \<open>MAX_DOCUMENT_SIZE_MB\<close> rejects it: with the limit \<open>-1\<close> the answer is 413.
\<close>

theorem unparsable_json_negative_limit_counterexample:
  "process_document (default_config\<lparr>MAX_DOCUMENT_SIZE_MB := - 1\<rparr>) sample_env
     \<lparr>is_json = True, get_json = None, files = [],
      is_form_data = False, raw_body = u ''{content:''\<rparr> empty_storage
   = (Inr (413, JObj [(u ''error'', JStr (u ''Document exceeds maximum size of -1 MB''))]),
      empty_storage)"
proof -
  have "str_int (- 1) = u ''-1''"
    by (simp add: str_int_def str_nat.simps [of "Suc 0"] u_Cons u_Nil)
  then show ?thesis
    by (simp add: process_document_def resolve_input_def json_or_empty_def content_size_mb_def
                  u_def)
qed

text \<open>
  Claim C10, amended. When \<open>MAX_DOCUMENT_SIZE_MB\<close> is not negative, a request with a JSON
  content type whose body does not parse is handled as the empty content with the file name
  \<open>document.txt\<close>: the answer has status 200, the file name \<open>document.txt\<close>, and
  \<open>character_count\<close> and \<open>word_count\<close> are both 0.
\<close>

theorem unparsable_json_is_empty_document:
  assumes "is_json r" and "get_json r = None" and "0 \<le> MAX_DOCUMENT_SIZE_MB cfg"
  shows "resolve_input r = Input (JStr []) (JStr (u ''document.txt''))
         \<and> (\<exists>body stats.
               fst (process_document cfg env r fs) = Inr (200, body)
               \<and> json_member body (u ''filename'') = Some (JStr (u ''document.txt''))
               \<and> json_member body (u ''statistics'') = Some stats
               \<and> json_member stats (u ''character_count'') = Some (JInt 0)
               \<and> json_member stats (u ''word_count'') = Some (JInt 0))"
proof
  show ri: "resolve_input r = Input (JStr []) (JStr (u ''document.txt''))"
    using assms(1,2) by (simp add: resolve_input_def json_or_empty_def)
  have small: "int (utf8_size []) \<le> MAX_DOCUMENT_SIZE_MB cfg * (1024 * 1024)"
    using assms(3) by (simp add: utf8_size_Nil)
  obtain outcome fs' where
    pd: "process_document cfg env r fs =
           (Inr (200, JObj (build_result cfg (uuid4 env) (processed_at env) (JStr [])
                              (JStr (u ''document.txt'')) (utf8_size [])
                            @ [(u ''storage'', outcome)])), fs')"
    using process_document_answers_record [OF ri _ small, of env fs] by auto
  show "\<exists>body stats.
               fst (process_document cfg env r fs) = Inr (200, body)
               \<and> json_member body (u ''filename'') = Some (JStr (u ''document.txt''))
               \<and> json_member body (u ''statistics'') = Some stats
               \<and> json_member stats (u ''character_count'') = Some (JInt 0)
               \<and> json_member stats (u ''word_count'') = Some (JInt 0)"
    by (simp add: pd filename_build_result statistics_build_result length_py_split
                  token_count_Nil u_eq_iff del: map_of_append)
qed

theorem unparsable_json_is_empty_document_witness:
  "resolve_input \<lparr>is_json = True, get_json = None, files = [],
      is_form_data = False, raw_body = u ''{content:''\<rparr>
     = Input (JStr []) (JStr (u ''document.txt''))
   \<and> (\<exists>body stats.
         fst (process_document default_config sample_env
                \<lparr>is_json = True, get_json = None, files = [],
      is_form_data = False, raw_body = u ''{content:''\<rparr>
                empty_storage) = Inr (200, body)
         \<and> json_member body (u ''filename'') = Some (JStr (u ''document.txt''))
         \<and> json_member body (u ''statistics'') = Some stats
         \<and> json_member stats (u ''character_count'') = Some (JInt 0)
         \<and> json_member stats (u ''word_count'') = Some (JInt 0))"
  by (rule unparsable_json_is_empty_document) (simp_all add: default_limit)

end
